theory Spec2Isabelle
  imports Main "HOL-Library.Sublist"
begin

section \<open>Steam Icons Fix: the icon acquisition engine and the batch orchestrator\<close>

text \<open>
  A shallow embedding of \<^verbatim>\<open>SteamIconsFix.py\<close>. The script is driven by the outside
  world (the Steam session, HTTP, the SteamCMD process, the disk), so every call that
  asks the world something is an oracle of the environment record \<open>env\<close>, and every
  call that changes the world is an event appended to the trace of the state. Each
  oracle receives the trace so far: the world may answer differently at different
  moments of a run.

  Exceptions are values. Every exception an oracle can deliver is a subclass of
  Python's \<^verbatim>\<open>Exception\<close>; the exit of the process (\<^verbatim>\<open>exit(1)\<close>) is a separate outcome.
  Text is a list of 8-bit characters. Writing an icon file and creating its directory
  are taken to succeed; reading, HTTP, the zip archive and the subprocess can fail.
\<close>

subsection \<open>Strings\<close>

definition dquote :: char where
  "dquote = CHR 0x22"

definition squote :: char where
  "squote = CHR 0x27"

definition backslash :: char where
  "backslash = CHR 0x5C"

definition newline :: char where
  "newline = CHR 0x0A"

text \<open>\<^verbatim>\<open>sub in line\<close> on strings.\<close>

fun contains :: "string \<Rightarrow> string \<Rightarrow> bool" where
  "contains sub [] = (sub = [])"
| "contains sub (x # xs) = (prefix sub (x # xs) \<or> contains sub xs)"

text \<open>\<^verbatim>\<open>str.split(c)\<close> with a one-character separator.\<close>

fun split_on :: "char \<Rightarrow> string \<Rightarrow> string list" where
  "split_on c [] = [[]]"
| "split_on c (x # xs) =
     (if x = c then [] # split_on c xs
      else (case split_on c xs of
              [] \<Rightarrow> [[x]]
            | p # ps \<Rightarrow> (x # p) # ps))"

text \<open>
  \<^verbatim>\<open>str.isspace\<close> on the code points below 256: tab to carriage return, the four
  separators 28 to 31, space, NEL and the no-break space.
\<close>

definition isspace :: "char \<Rightarrow> bool" where
  "isspace c = (of_char c \<in> {9, 10, 11, 12, 13, 28, 29, 30, 31, 32, 133, 160 :: nat})"

definition strip :: "string \<Rightarrow> string" where
  "strip s = rev (dropWhile isspace (rev (dropWhile isspace s)))"

text \<open>\<^verbatim>\<open>sep.join(xs)\<close>.\<close>

fun join :: "string \<Rightarrow> string list \<Rightarrow> string" where
  "join sep [] = []"
| "join sep [x] = x"
| "join sep (x # y # ys) = x @ sep @ join sep (y # ys)"

definition digit_char :: "nat \<Rightarrow> char" where
  "digit_char d = char_of (48 + d)"

fun show_nat :: "nat \<Rightarrow> string" where
  "show_nat n = (if n < 10 then [digit_char n] else show_nat (n div 10) @ [digit_char (n mod 10)])"

declare show_nat.simps [simp del]

definition show_int :: "int \<Rightarrow> string" where
  "show_int i = (if i < 0 then CHR ''-'' # show_nat (nat (- i)) else show_nat (nat i))"

subsection \<open>Data\<close>

text \<open>
  The dictionaries \<^verbatim>\<open>{"name": ..., "appid": ...}\<close> of \<^verbatim>\<open>get_steam_games\<close> and
  \<^verbatim>\<open>{"appid": ..., "name": ..., "reason": ...}\<close> of the failure list.
\<close>

record game =
  name :: string
  appid :: string

record failure = game +
  reason :: string

datatype exn_class =
  PyException | RequestException | BadZipFile | CalledProcessError
  | IndexError | KeyError | ValueError

text \<open>An exception: its class and \<^verbatim>\<open>str(err)\<close>.\<close>

datatype exn = Exn exn_class string

record response =
  status_code :: int
  content :: string

record zip_archive =
  testzip :: "exn + string option"
  extractall :: "string \<Rightarrow> exn option"

text \<open>
  The product info of the session client: a dictionary with the key \<^verbatim>\<open>apps\<close>, from
  application numbers to sections (\<^verbatim>\<open>common\<close>, ...) of keys and values. Dictionaries
  are association lists; the empty one is falsy.
\<close>

type_synonym app_info = "(string \<times> (string \<times> string) list) list"

type_synonym product_info = "(string \<times> (int \<times> app_info) list) list"

datatype event =
  Print string
  | Get string
  | Run string
  | Sleep
  | ExtractAll string
  | MakeDirs string
  | WriteFile string string
  | Logout

record state =
  failed_icons :: "failure list"
  trace :: "event list"
  files :: "string \<rightharpoonup> string"

datatype res = Ok state | Raised exn state | Exited nat state

fun state_of :: "res \<Rightarrow> state" where
  "state_of (Ok s) = s"
| "state_of (Raised e s) = s"
| "state_of (Exited n s) = s"

record env =
  client_connected :: "event list \<Rightarrow> bool"
  anonymous_login :: "event list \<Rightarrow> bool"
  py_int :: "string \<Rightarrow> exn + int"
  get_product_info :: "event list \<Rightarrow> int \<Rightarrow> exn + product_info"
  requests_get :: "event list \<Rightarrow> string \<Rightarrow> exn + response"
  path_exists :: "event list \<Rightarrow> string \<Rightarrow> bool"
  path_isdir :: "event list \<Rightarrow> string \<Rightarrow> bool"
  os_access_w :: "event list \<Rightarrow> string \<Rightarrow> bool"
  ZipFile :: "string \<Rightarrow> exn + zip_archive"
  subprocess_run :: "event list \<Rightarrow> string \<Rightarrow> exn option"
  readlines :: "event list \<Rightarrow> string \<Rightarrow> exn + string list"
  path_join :: "string \<Rightarrow> string list \<Rightarrow> string"
  path_dirname :: "string \<Rightarrow> string"
  find_steam_installation :: "string option"
  library_folders :: "event list \<Rightarrow> string \<Rightarrow> exn + string list"
  folder_games :: "event list \<Rightarrow> string \<Rightarrow> exn + game list"

definition emit :: "event \<Rightarrow> state \<Rightarrow> state" where
  "emit e s = s\<lparr>trace := trace s @ [e]\<rparr>"

definition py_print :: "string \<Rightarrow> state \<Rightarrow> state" where
  "py_print m s = emit (Print m) s"

definition append_failure :: "failure \<Rightarrow> state \<Rightarrow> state" where
  "append_failure f s = s\<lparr>failed_icons := failed_icons s @ [f]\<rparr>"

subsection \<open>\<^verbatim>\<open>download_and_extract\<close>\<close>

definition download_and_extract_try :: "env \<Rightarrow> string \<Rightarrow> string \<Rightarrow> state \<Rightarrow> res" where
  "download_and_extract_try env url path s =
     (let s1 = emit (Get url) s in
      case requests_get env (trace s) url of
        Inl e \<Rightarrow> Raised e s1
      | Inr response \<Rightarrow>
          if status_code response \<noteq> 200
          then Raised (Exn PyException (''Failed to download the file. URL: '' @ url)) s1
          else (case ZipFile env (content response) of
                  Inl e \<Rightarrow> Raised e s1
                | Inr zip_file \<Rightarrow>
                    (case testzip zip_file of
                       Inl e \<Rightarrow> Raised e s1
                     | Inr (Some bad) \<Rightarrow>
                         Raised (Exn PyException
                           (''The downloaded file is not a valid zip file: '' @ url)) s1
                     | Inr None \<Rightarrow>
                         (case extractall zip_file path of
                            Some e \<Rightarrow> Raised e s1
                          | None \<Rightarrow> Ok (emit (ExtractAll path) s1)))))"

definition download_and_extract :: "env \<Rightarrow> string \<Rightarrow> string \<Rightarrow> state \<Rightarrow> res" where
  "download_and_extract env url path s =
     (if \<not> path_isdir env (trace s) path \<or> \<not> os_access_w env (trace s) path
      then Raised (Exn PyException
             (''The path is either not a directory or is not writeable: '' @ path)) s
      else (case download_and_extract_try env url path s of
              Raised (Exn RequestException m) s' \<Rightarrow>
                Ok (py_print (''A requests exception occurred:  '' @ m) s')
            | Raised (Exn BadZipFile m) s' \<Rightarrow>
                Ok (py_print (''A zip file exception occurred:  '' @ m) s')
            | Raised (Exn c m) s' \<Rightarrow>
                Ok (py_print (''An exception occurred:  '' @ m) s')
            | r \<Rightarrow> r))"

subsection \<open>\<^verbatim>\<open>download_icon\<close>\<close>

definition icon_url :: "string \<Rightarrow> string \<Rightarrow> string" where
  "icon_url app_id client_icon_filename =
     ''https://cdn.cloudflare.steamstatic.com/steamcommunity/public/images/apps/''
       @ app_id @ ''/'' @ client_icon_filename @ ''.ico''"

definition icon_file_path :: "env \<Rightarrow> string \<Rightarrow> string \<Rightarrow> string" where
  "icon_file_path env steamcmd_install_dir client_icon_filename =
     path_join env steamcmd_install_dir [''steam'', ''games'', client_icon_filename @ ''.ico'']"

definition download_icon ::
  "env \<Rightarrow> string \<Rightarrow> string \<Rightarrow> string \<Rightarrow> string \<Rightarrow> string \<Rightarrow> state \<Rightarrow> res" where
  "download_icon env app_id client_icon_filename client_icon_url game_name
       steamcmd_install_dir s =
     (let s1 = emit (Get client_icon_url) s in
      case requests_get env (trace s) client_icon_url of
        Inl e \<Rightarrow> Raised e s1
      | Inr response \<Rightarrow>
          if status_code response = 200
          then (let p = icon_file_path env steamcmd_install_dir client_icon_filename;
                    s2 = emit (MakeDirs (path_dirname env p)) s1;
                    s3 = emit (WriteFile p (content response))
                           (s2\<lparr>files := (files s2)(p \<mapsto> content response)\<rparr>)
                in Ok (py_print (''Client Icon saved to: '' @ p) s3))
          else Ok (append_failure
                     \<lparr>name = game_name, appid = app_id, reason = ''failed_to_download''\<rparr>
                     (py_print (''Failed to download Client Icon from URL: '' @ client_icon_url)
                        s1)))"

subsection \<open>\<^verbatim>\<open>fetch_icon_by_app_id\<close>: the fast path\<close>

definition clienticon_of :: "app_info \<Rightarrow> string option" where
  "clienticon_of app =
     (case map_of app ''common'' of
        None \<Rightarrow> None
      | Some common \<Rightarrow> map_of common ''clienticon'')"

text \<open>The body of the \<^verbatim>\<open>try\<close> of lines 168 to 186.\<close>

definition fast_path_try :: "env \<Rightarrow> string \<Rightarrow> string \<Rightarrow> string \<Rightarrow> state \<Rightarrow> res" where
  "fast_path_try env steamcmd_install_dir app_id game_name s =
     (case py_int env app_id of
        Inl e \<Rightarrow> Raised e s
      | Inr n \<Rightarrow>
          (case get_product_info env (trace s) n of
             Inl e \<Rightarrow> Raised e s
           | Inr app_info \<Rightarrow>
               if app_info \<noteq> []
               then (case map_of app_info ''apps'' of
                       None \<Rightarrow> Raised (Exn KeyError (squote # ''apps'' @ [squote])) s
                     | Some apps \<Rightarrow>
                         (case map_of apps n of
                            None \<Rightarrow> Raised (Exn KeyError (show_int n)) s
                          | Some app \<Rightarrow>
                              (case clienticon_of app of
                                 Some client_icon_filename \<Rightarrow>
                                   (let client_icon_url = icon_url app_id client_icon_filename
                                    in download_icon env app_id client_icon_filename
                                         client_icon_url game_name steamcmd_install_dir
                                         (py_print (''[FAST] Client Icon URL for '' @ game_name
                                            @ '' - '' @ app_id @ '': '' @ client_icon_url) s))
                               | None \<Rightarrow>
                                   Ok (py_print (''[FAST] Unable to find '' @ [squote]
                                         @ ''clienticon'' @ [squote] @ '' in the app info'') s))))
               else Ok (py_print (''[FAST] Unable to get product info for app ID:  '' @ app_id) s)))"

definition fast_path :: "env \<Rightarrow> string \<Rightarrow> string \<Rightarrow> string \<Rightarrow> state \<Rightarrow> res" where
  "fast_path env steamcmd_install_dir app_id game_name s =
     (case fast_path_try env steamcmd_install_dir app_id game_name s of
        Raised (Exn c m) s' \<Rightarrow> Ok (py_print (''[FAST] An error occurred: '' @ m) s')
      | r \<Rightarrow> r)"

subsection \<open>\<^verbatim>\<open>fetch_icon_by_app_id\<close>: the fallback path\<close>

definition output_file :: string where
  "output_file = ''steamcmd_output.txt''"

definition steamcmd_zip_url :: string where
  "steamcmd_zip_url = ''https://steamcdn-a.akamaihd.net/client/installer/steamcmd.zip''"

definition quit_command :: "string \<Rightarrow> string" where
  "quit_command exe =
     [dquote] @ exe @ [dquote] @ '' +quit > '' @ output_file @ '' 2>&1''"

definition ggs :: string where
  "ggs = concat (replicate 10 ''+gg '')"

definition steamcmd_command :: "string \<Rightarrow> string \<Rightarrow> string" where
  "steamcmd_command exe app_id =
     [dquote] @ exe @ [dquote] @ '' '' @ ggs
       @ '' +app_info_update 1 +app_info_print '' @ app_id @ '' '' @ ggs
       @ '' +quit > '' @ output_file @ '' 2>&1''"

text \<open>The body of the \<^verbatim>\<open>try\<close> of lines 207 to 224.\<close>

definition acquire_steamcmd_try :: "env \<Rightarrow> string \<Rightarrow> string \<Rightarrow> state \<Rightarrow> res" where
  "acquire_steamcmd_try env steamcmd_install_dir exe s =
     (case download_and_extract env steamcmd_zip_url steamcmd_install_dir s of
        Ok s1 \<Rightarrow>
          (let s2 = py_print ''Updating SteamCMD...''
                      (py_print ''SteamCMD downloaded successfully'' s1);
               cmd = quit_command exe;
               s3 = emit (Run cmd) s2
           in case subprocess_run env (trace s2) cmd of
                None \<Rightarrow> Ok s3
              | Some (Exn CalledProcessError m) \<Rightarrow>
                  Ok (py_print (''[Probably Ignore]Error: '' @ m) s3)
              | Some e \<Rightarrow> Raised e s3)
      | r \<Rightarrow> r)"

text \<open>Lines 201 to 231.\<close>

definition ensure_steamcmd :: "env \<Rightarrow> string \<Rightarrow> string \<Rightarrow> state \<Rightarrow> res" where
  "ensure_steamcmd env steamcmd_install_dir exe s =
     (if \<not> path_exists env (trace s) exe
      then (case acquire_steamcmd_try env steamcmd_install_dir exe
                   (py_print ''Downloading SteamCMD...''
                      (py_print (''SteamCMD not found in the following path: ''
                         @ steamcmd_install_dir) s)) of
              Raised (Exn c m) s' \<Rightarrow>
                Exited 1 (py_print ''Failed to download SteamCMD. Exiting...''
                            (py_print (''An exception occurred:  '' @ m) s'))
            | r \<Rightarrow> r)
      else Ok (py_print (''SteamCMD found in the following path: '' @ steamcmd_install_dir) s))"

definition clienticon_key :: string where
  "clienticon_key = [dquote] @ ''clienticon'' @ [dquote]"

text \<open>
  The loop of lines 266 to 287, with the flag \<^verbatim>\<open>foundClientIcon\<close> as second component.
  \<^verbatim>\<open>parts[3]\<close> raises \<^verbatim>\<open>IndexError\<close> when the line has fewer than four parts.
\<close>

fun scan_lines ::
  "env \<Rightarrow> string \<Rightarrow> string \<Rightarrow> string \<Rightarrow> string list \<Rightarrow> state \<Rightarrow> res \<times> bool" where
  "scan_lines env steamcmd_install_dir app_id game_name [] s = (Ok s, False)"
| "scan_lines env steamcmd_install_dir app_id game_name (line # lines) s =
     (if contains clienticon_key line
      then (let parts = split_on dquote (strip line)
            in if length parts > 1
               then (if length parts \<le> 3
                     then (Raised (Exn IndexError ''list index out of range'') s, False)
                     else (let client_icon_filename = parts ! 3;
                               client_icon_url = icon_url app_id client_icon_filename
                           in (download_icon env app_id client_icon_filename client_icon_url
                                 game_name steamcmd_install_dir
                                 (py_print (''Client Icon URL for '' @ game_name @ '' - ''
                                    @ app_id @ '': '' @ client_icon_url) s),
                               True)))
               else scan_lines env steamcmd_install_dir app_id game_name lines s)
      else scan_lines env steamcmd_install_dir app_id game_name lines s)"

text \<open>The body of the \<^verbatim>\<open>try\<close> of lines 249 to 295.\<close>

definition fallback_try ::
  "env \<Rightarrow> string \<Rightarrow> string \<Rightarrow> string \<Rightarrow> string \<Rightarrow> state \<Rightarrow> res" where
  "fallback_try env steamcmd_install_dir exe app_id game_name s =
     (let cmd = steamcmd_command exe app_id;
          s1 = emit (Run cmd) s
      in case subprocess_run env (trace s) cmd of
           Some e \<Rightarrow> Raised e s1
         | None \<Rightarrow>
             (let s2 = emit Sleep s1
              in case readlines env (trace s2) output_file of
                   Inl e \<Rightarrow> Raised e s2
                 | Inr lines \<Rightarrow>
                     (case scan_lines env steamcmd_install_dir app_id game_name lines s2 of
                        (Ok s3, foundClientIcon) \<Rightarrow>
                          if \<not> foundClientIcon
                          then Ok (append_failure
                                     \<lparr>name = game_name, appid = app_id,
                                       reason = ''icon_not_found''\<rparr>
                                     (py_print (''Client Icon URL for '' @ game_name @ '' - ''
                                        @ app_id @ '' not found in the SteamCMD output.'') s3))
                          else Ok s3
                      | (r, foundClientIcon) \<Rightarrow> r)))"

definition steamcmd_exe_path :: "env \<Rightarrow> string \<Rightarrow> string" where
  "steamcmd_exe_path env steamcmd_install_dir =
     path_join env steamcmd_install_dir [''steamcmd.exe'']"

definition fallback_path :: "env \<Rightarrow> string \<Rightarrow> string \<Rightarrow> string \<Rightarrow> state \<Rightarrow> res" where
  "fallback_path env steamcmd_install_dir app_id game_name s =
     (let exe = steamcmd_exe_path env steamcmd_install_dir
      in case ensure_steamcmd env steamcmd_install_dir exe s of
           Ok s1 \<Rightarrow>
             (case fallback_try env steamcmd_install_dir exe app_id game_name s1 of
                Raised (Exn CalledProcessError m) s' \<Rightarrow> Ok (py_print (''Error: '' @ m) s')
              | r \<Rightarrow> r)
         | r \<Rightarrow> r)"

definition not_connected_msg :: string where
  "not_connected_msg = ''[FAST] Not connected to Steam. Will use SteamCMD to get the app info''"

definition fetch_icon_by_app_id :: "env \<Rightarrow> string \<Rightarrow> string \<Rightarrow> string \<Rightarrow> state \<Rightarrow> res" where
  "fetch_icon_by_app_id env steamPath app_id game_name s =
     (if client_connected env (trace s)
      then fast_path env steamPath app_id game_name s
      else fallback_path env steamPath app_id game_name (py_print not_connected_msg s))"

subsection \<open>\<^verbatim>\<open>get_steam_games\<close>\<close>

text \<open>
  The manifest reader is an external collaborator: what it reads from the disk (the
  library folders of \<^verbatim>\<open>get_steam_library_folders\<close>, and the pairs of name and
  application identifier matched in the manifest files of one folder) comes from the
  environment. Its control flow and what it prints are the source's.
\<close>

fun collect_games :: "env \<Rightarrow> event list \<Rightarrow> string list \<Rightarrow> exn + game list" where
  "collect_games env tr [] = Inr []"
| "collect_games env tr (folder # folders) =
     (case folder_games env tr folder of
        Inl e \<Rightarrow> Inl e
      | Inr gs \<Rightarrow>
          (case collect_games env tr folders of
             Inl e \<Rightarrow> Inl e
           | Inr rest \<Rightarrow> Inr (gs @ rest)))"

definition print_game :: "game \<Rightarrow> state \<Rightarrow> state" where
  "print_game g s = py_print ('' - '' @ appid g @ '': '' @ name g) s"

definition get_steam_games :: "env \<Rightarrow> string \<Rightarrow> bool \<Rightarrow> state \<Rightarrow> (exn + game list) \<times> state" where
  "get_steam_games env steamPath printFullList s =
     (case library_folders env (trace s) steamPath of
        Inl e \<Rightarrow> (Inl e, s)
      | Inr folders \<Rightarrow>
          if folders = []
          then (Inr [], py_print ''No Steam library folders found.'' s)
          else (case collect_games env (trace s) folders of
                  Inl e \<Rightarrow> (Inl e, s)
                | Inr all_games \<Rightarrow>
                    if all_games = []
                    then (Inr all_games,
                          py_print ''No Steam games found in your local libraries.'' s)
                    else if printFullList
                    then (Inr all_games,
                          fold print_game all_games
                            (py_print ''List of Steam games found in your local libraries:'' s))
                    else (Inr all_games, s)))"

subsection \<open>\<^verbatim>\<open>main\<close>\<close>

text \<open>The loop of lines 421 and 422 (argument \<^verbatim>\<open>all\<close>).\<close>

fun fetch_all :: "env \<Rightarrow> string \<Rightarrow> game list \<Rightarrow> state \<Rightarrow> res" where
  "fetch_all env steam_path [] s = Ok s"
| "fetch_all env steam_path (g # gs) s =
     (case fetch_icon_by_app_id env steam_path (appid g) (name g) s of
        Ok s' \<Rightarrow> fetch_all env steam_path gs s'
      | r \<Rightarrow> r)"

text \<open>The messages of lines 431 to 433 and 441 to 443.\<close>

definition skipping_msg :: "string \<Rightarrow> string" where
  "skipping_msg app_id =
     ''Skipping app_id='' @ app_id
       @ '' (Steam Common Redistributables) as it is not a game/app.''"

definition not_in_libraries_msg :: "string \<Rightarrow> string" where
  "not_in_libraries_msg app_id =
     ''A game with app_id='' @ app_id
       @ '' was not found in your Steam libraries but I will try to download the icon anyway.''"

text \<open>The loop of lines 427 to 444 (application identifiers as arguments).\<close>

fun fetch_given :: "env \<Rightarrow> string \<Rightarrow> game list \<Rightarrow> string list \<Rightarrow> state \<Rightarrow> res" where
  "fetch_given env steam_path games [] s = Ok s"
| "fetch_given env steam_path games (app_id # app_ids) s =
     (if app_id = ''228980''
      then fetch_given env steam_path games app_ids (py_print (skipping_msg app_id) s)
      else (case (case find (\<lambda>g. appid g = app_id) games of
                    Some g \<Rightarrow> fetch_icon_by_app_id env steam_path (appid g) (name g) s
                  | None \<Rightarrow>
                      fetch_icon_by_app_id env steam_path app_id []
                        (py_print (not_in_libraries_msg app_id) s)) of
              Ok s' \<Rightarrow> fetch_given env steam_path games app_ids s'
            | r \<Rightarrow> r))"

definition print_failure :: "failure \<Rightarrow> state \<Rightarrow> state" where
  "print_failure g s =
     py_print (''AppID: '' @ appid g @ '', Name: '' @ name g @ '', Reason: '' @ reason g) s"

definition retry_command :: "string list \<Rightarrow> string" where
  "retry_command failed_app_ids =
     ''python .'' @ [backslash] @ ''SteamIconsFix.py '' @ join '' '' failed_app_ids"

text \<open>Lines 446 to 465: the report at the end of the run.\<close>

definition report :: "bool \<Rightarrow> state \<Rightarrow> state" where
  "report noIcon s =
     (if failed_icons s = []
      then (if noIcon
            then py_print
                   ''No icons were downloaded as you did not specify any app_id or were only listing games''
                   s
            else py_print ''All icons were downloaded successfully'' s)
      else (let failed_app_ids = map appid (failed_icons s)
            in py_print (retry_command failed_app_ids)
                 (py_print (newline
                      # ''To retry downloading icons for the failed games, run the following command:'')
                    (fold print_failure (failed_icons s)
                       (py_print (newline # ''Failed icons: '') s)))))"

definition total_line :: "game list \<Rightarrow> string" where
  "total_line all_games =
     newline # ''Total number of games installed: '' @ show_nat (length all_games)"

text \<open>Lines 401 to 444: the three modes. The second component is \<^verbatim>\<open>noIcon\<close>.\<close>

definition dispatch :: "env \<Rightarrow> string \<Rightarrow> string list \<Rightarrow> state \<Rightarrow> res \<times> bool" where
  "dispatch env steam_path app_ids s =
     (if app_ids = [''list'']
      then (case get_steam_games env steam_path True s of
              (Inl e, s1) \<Rightarrow> (Raised e s1, False)
            | (Inr all_games, s1) \<Rightarrow> (Ok (py_print (total_line all_games) s1), True))
      else if app_ids = [''all'']
      then (case get_steam_games env steam_path True s of
              (Inl e, s1) \<Rightarrow> (Raised e s1, False)
            | (Inr all_games, s1) \<Rightarrow>
                (fetch_all env steam_path all_games (py_print (total_line all_games) s1), False))
      else (case get_steam_games env steam_path False s of
              (Inl e, s1) \<Rightarrow> (Raised e s1, False)
            | (Inr games, s1) \<Rightarrow> (fetch_given env steam_path games app_ids s1, False)))"

text \<open>Lines 385 to 395: the installation is announced and the anonymous login tried.\<close>

definition logged_in :: "env \<Rightarrow> string \<Rightarrow> state \<Rightarrow> state" where
  "logged_in env steam_path s0 =
     (let s1 = py_print (''Steam is installed in this path: '' @ steam_path) s0
      in if anonymous_login env (trace s1)
         then py_print ''Logged in to Steam anonymously and successfully'' s1
         else py_print
                ''Could not log in to Steam anonymously. Will use SteamCMD to get the app info''
                s1)"

definition initial_state :: state where
  "initial_state = \<lparr>failed_icons = [], trace = [], files = Map.empty\<rparr>"

text \<open>
  \<^verbatim>\<open>main\<close>, from the process's arguments \<^verbatim>\<open>sys.argv\<close> and the files already on the
  disk. The list \<^verbatim>\<open>failed_icons\<close> starts empty.
\<close>

definition main :: "env \<Rightarrow> string list \<Rightarrow> (string \<rightharpoonup> string) \<Rightarrow> res" where
  "main env argv disk =
     (let s0 = initial_state\<lparr>files := disk\<rparr>
      in if length argv < 2
         then Ok (py_print ''Usage: python script.py [<app_id> ...] <list> <all>'' s0)
         else (case find_steam_installation env of
                 None \<Rightarrow> Ok (py_print ''Steam installation not found. Exiting...'' s0)
               | Some steam_path \<Rightarrow>
                   if steam_path = []
                   then Ok (py_print ''Steam installation not found. Exiting...'' s0)
                   else (case dispatch env steam_path (drop 1 argv)
                                 (logged_in env steam_path s0) of
                           (Ok s3, noIcon) \<Rightarrow> Ok (emit Logout (report noIcon s3))
                         | (r, noIcon) \<Rightarrow> r)))"

subsection \<open>Observations on a run\<close>

text \<open>The failure records that a step appended to the list it was given.\<close>

definition new_failures :: "state \<Rightarrow> res \<Rightarrow> failure list" where
  "new_failures s r = drop (length (failed_icons s)) (failed_icons (state_of r))"

definition raised_class :: "res \<Rightarrow> exn_class option" where
  "raised_class r = (case r of Raised (Exn c m) s \<Rightarrow> Some c | _ \<Rightarrow> None)"

fun is_Ok :: "res \<Rightarrow> bool" where
  "is_Ok (Ok s) = True"
| "is_Ok r = False"

text \<open>The shell commands run and the URLs requested, in order.\<close>

fun runs_of :: "event list \<Rightarrow> string list" where
  "runs_of [] = []"
| "runs_of (Run c # es) = c # runs_of es"
| "runs_of (e # es) = runs_of es"

fun gets_of :: "event list \<Rightarrow> string list" where
  "gets_of [] = []"
| "gets_of (Get u # es) = u # gets_of es"
| "gets_of (e # es) = gets_of es"

fun writes_of :: "event list \<Rightarrow> (string \<times> string) list" where
  "writes_of [] = []"
| "writes_of (WriteFile p b # es) = (p, b) # writes_of es"
| "writes_of (e # es) = writes_of es"

text \<open>
  The condition of the fallback path's \<open>icon_not_found\<close>: from the state \<open>s\<close> in which
  the utility is invoked for \<open>app_id\<close>, the invocation returns, the output file is
  read, and none of its lines contains the quoted key.
\<close>

definition scans_without_icon :: "env \<Rightarrow> string \<Rightarrow> string \<Rightarrow> state \<Rightarrow> bool" where
  "scans_without_icon env exe app_id s =
     (let cmd = steamcmd_command exe app_id
      in subprocess_run env (trace s) cmd = None \<and>
         (case readlines env (trace (emit Sleep (emit (Run cmd) s))) output_file of
            Inl e \<Rightarrow> False
          | Inr lines \<Rightarrow> \<forall>line \<in> set lines. \<not> contains clienticon_key line))"

subsection \<open>Concrete worlds\<close>

text \<open>Joining and splitting paths with backslashes, and \<^verbatim>\<open>int()\<close> on decimal digits.\<close>

definition win_join :: "string \<Rightarrow> string list \<Rightarrow> string" where
  "win_join d ps = foldl (\<lambda>a b. a @ [backslash] @ b) d ps"

definition win_dirname :: "string \<Rightarrow> string" where
  "win_dirname p = rev (drop 1 (dropWhile (\<lambda>c. c \<noteq> backslash) (rev p)))"

definition digit_val :: "char \<Rightarrow> nat option" where
  "digit_val c =
     (let n = of_char c :: nat in if 48 \<le> n \<and> n \<le> 57 then Some (n - 48) else None)"

fun decimal_acc :: "nat \<Rightarrow> string \<Rightarrow> nat option" where
  "decimal_acc acc [] = Some acc"
| "decimal_acc acc (c # cs) =
     (case digit_val c of
        None \<Rightarrow> None
      | Some d \<Rightarrow> decimal_acc (10 * acc + d) cs)"

definition decimal :: "string \<Rightarrow> exn + int" where
  "decimal s =
     (case (if s = [] then None else decimal_acc 0 s) of
        None \<Rightarrow>
          Inl (Exn ValueError
                 (''invalid literal for int() with base 10: '' @ [squote] @ s @ [squote]))
      | Some n \<Rightarrow> Inr (int n))"

definition steam_dir :: string where
  "steam_dir = ''C:'' @ [backslash] @ ''Steam''"

text \<open>
  A machine without network: the session is not connected, SteamCMD is installed and
  prints nothing, every download answers 404, and no library folder is found.
\<close>

definition offline_world :: env where
  "offline_world =
     \<lparr>client_connected = (\<lambda>tr. False),
      anonymous_login = (\<lambda>tr. False),
      py_int = decimal,
      get_product_info = (\<lambda>tr n. Inr []),
      requests_get = (\<lambda>tr url. Inr \<lparr>status_code = 404, content = []\<rparr>),
      path_exists = (\<lambda>tr p. True),
      path_isdir = (\<lambda>tr p. True),
      os_access_w = (\<lambda>tr p. True),
      ZipFile = (\<lambda>b. Inl (Exn BadZipFile ''File is not a zip file'')),
      subprocess_run = (\<lambda>tr cmd. None),
      readlines = (\<lambda>tr p. Inr []),
      path_join = win_join,
      path_dirname = win_dirname,
      find_steam_installation = Some steam_dir,
      library_folders = (\<lambda>tr p. Inr []),
      folder_games = (\<lambda>tr p. Inr [])\<rparr>"

text \<open>An output of SteamCMD that names the icon, and one cut after the key.\<close>

definition icon_line :: string where
  "icon_line = [CHR 0x09, CHR 0x09] @ clienticon_key @ [CHR 0x09, CHR 0x09, dquote]
     @ ''icon_abc'' @ [dquote, newline]"

definition usable_output :: "string list" where
  "usable_output = [''AppID : 730, change number : 1'' @ [newline], icon_line]"

definition truncated_output :: "string list" where
  "truncated_output =
     [''AppID : 730, change number : 1'' @ [newline],
      [CHR 0x09, CHR 0x09] @ clienticon_key @ [newline]]"

definition connection_error :: exn where
  "connection_error = Exn RequestException ''Connection aborted.''"

definition nonzero_exit :: exn where
  "nonzero_exit = Exn CalledProcessError ''Command returned non-zero exit status 1.''"

text \<open>SteamCMD has the icon of the application in its cache, the CDN cannot be reached.\<close>

definition unreachable_cdn_world :: env where
  "unreachable_cdn_world =
     offline_world\<lparr>readlines := (\<lambda>tr p. Inr usable_output),
                   requests_get := (\<lambda>tr url. Inl connection_error)\<rparr>"

text \<open>The output file is read before SteamCMD has written the whole line.\<close>

definition truncated_world :: env where
  "truncated_world = offline_world\<lparr>readlines := (\<lambda>tr p. Inr truncated_output)\<rparr>"

text \<open>SteamCMD is missing, and what is downloaded in its place is not a zip archive.\<close>

definition bad_zip_world :: env where
  "bad_zip_world =
     offline_world\<lparr>path_exists := (\<lambda>tr p. False),
                   requests_get := (\<lambda>tr url. Inr \<lparr>status_code = 200, content = ''<html>''\<rparr>),
                   subprocess_run := (\<lambda>tr cmd. Some nonzero_exit)\<rparr>"

text \<open>The redistributables are installed, as their manifest says.\<close>

definition redistributables :: game where
  "redistributables = \<lparr>name = ''Steamworks Common Redistributables'', appid = ''228980''\<rparr>"

definition redistributables_world :: env where
  "redistributables_world =
     offline_world\<lparr>library_folders := (\<lambda>tr p. Inr [win_join p [''steamapps'']]),
                   folder_games := (\<lambda>tr p. Inr [redistributables])\<rparr>"

text \<open>SteamCMD exits with a status other than zero and leaves a usable output file.\<close>

definition failing_steamcmd_world :: env where
  "failing_steamcmd_world =
     offline_world\<lparr>subprocess_run := (\<lambda>tr cmd. Some nonzero_exit),
                   readlines := (\<lambda>tr p. Inr usable_output)\<rparr>"

text \<open>A connected session that knows the application 730, with or without its icon.\<close>

definition connected_world :: "app_info \<Rightarrow> int \<Rightarrow> env" where
  "connected_world app status =
     offline_world\<lparr>client_connected := (\<lambda>tr. True),
                   anonymous_login := (\<lambda>tr. True),
                   get_product_info := (\<lambda>tr n. Inr [(''apps'', [(730, app)]), (''packages'', [])]),
                   requests_get := (\<lambda>tr url. Inr \<lparr>status_code = status, content = ''ICO''\<rparr>)\<rparr>"

definition app_with_icon :: app_info where
  "app_with_icon = [(''common'', [(''name'', ''Counter-Strike 2''), (''clienticon'', ''icon_abc'')])]"

definition app_without_icon :: app_info where
  "app_without_icon = [(''common'', [(''name'', ''Counter-Strike 2'')])]"

section \<open>Properties\<close>

subsection \<open>Strings\<close>

lemma contains_decomp: "contains sub l \<Longrightarrow> \<exists>p t. l = p @ sub @ t"
proof (induction l)
  case Nil
  then show ?case by simp
next
  case (Cons x xs)
  from Cons.prems have "prefix sub (x # xs) \<or> contains sub xs" by simp
  then show ?case
  proof
    assume "prefix sub (x # xs)"
    then obtain t where "x # xs = sub @ t" by (auto simp: prefix_def)
    then have "x # xs = [] @ sub @ t" by simp
    then show ?thesis by blast
  next
    assume "contains sub xs"
    then obtain p t where "xs = p @ sub @ t" using Cons.IH by blast
    then have "x # xs = (x # p) @ sub @ t" by simp
    then show ?thesis by blast
  qed
qed

lemma length_split_on: "length (split_on c s) = Suc (count_list s c)"
  by (induction s) (auto split: list.splits)

lemma count_list_dropWhile: "\<not> P c \<Longrightarrow> count_list (dropWhile P xs) c = count_list xs c"
  by (induction xs) auto

lemma count_list_reversed: "count_list (rev xs) c = count_list xs c"
  by (induction xs) auto

lemma count_strip_dquote: "count_list (strip s) dquote = count_list s dquote"
proof -
  have "\<not> isspace dquote" by (simp add: isspace_def dquote_def)
  then show ?thesis by (simp add: strip_def count_list_reversed count_list_dropWhile)
qed

text \<open>
  A line with the quoted key has two quotes at least, so it splits into three parts at
  least: the test \<^verbatim>\<open>len(parts) > 1\<close> of line 270 never fails.
\<close>

lemma clienticon_parts:
  assumes "contains clienticon_key line"
  shows "3 \<le> length (split_on dquote (strip line))"
proof -
  from assms obtain p t where "line = p @ clienticon_key @ t"
    using contains_decomp by blast
  moreover have "count_list clienticon_key dquote = 2"
    by (simp add: clienticon_key_def dquote_def)
  ultimately have "2 \<le> count_list line dquote" by simp
  then show ?thesis by (simp add: length_split_on count_strip_dquote)
qed

text \<open>
  What \<open>join\<close> builds: every element, in order, with the separator between two
  neighbours. Split at a one-character separator that no element has in it, the joined
  string gives the elements back.
\<close>

lemma join_Cons: "xs \<noteq> [] \<Longrightarrow> join sep (x # xs) = x @ sep @ join sep xs"
  by (cases xs) simp_all

lemma split_on_without: "c \<notin> set x \<Longrightarrow> split_on c x = [x]"
  by (induction x) auto

lemma split_on_first:
  "c \<notin> set x \<Longrightarrow> split_on c (x @ c # rest) = x # split_on c rest"
  by (induction x) auto

lemma split_on_join:
  assumes "xs \<noteq> []" and "\<forall>x \<in> set xs. c \<notin> set x"
  shows "split_on c (join [c] xs) = xs"
  using assms
proof (induction xs)
  case Nil
  then show ?case by simp
next
  case (Cons x xs)
  show ?case
  proof (cases "xs = []")
    case True
    with Cons.prems show ?thesis by (simp add: split_on_without)
  next
    case False
    with Cons have "split_on c (join [c] xs) = xs" by simp
    with False Cons.prems show ?thesis by (simp add: join_Cons split_on_first)
  qed
qed

lemma length_join:
  "xs \<noteq> [] \<Longrightarrow>
     length (join sep xs) = sum_list (map length xs) + (length xs - 1) * length sep"
proof (induction xs)
  case Nil
  then show ?case by simp
next
  case (Cons x xs)
  then show ?case by (cases xs) (simp_all add: join_Cons)
qed

subsection \<open>What each step appends to the failure list\<close>

lemmas state_defs = emit_def py_print_def append_failure_def

lemma steam_dir_nonempty: "steam_dir \<noteq> []"
  by (simp add: steam_dir_def)

lemma download_icon_failed:
  "failed_icons (state_of (download_icon env a st u n d s)) =
     failed_icons s @ (case requests_get env (trace s) u of
                         Inl e \<Rightarrow> []
                       | Inr resp \<Rightarrow>
                           if status_code resp = 200 then []
                           else [\<lparr>name = n, appid = a, reason = ''failed_to_download''\<rparr>])"
  by (simp add: download_icon_def state_defs Let_def split: sum.splits)

lemma download_after_print_failed:
  "failed_icons (state_of (download_icon env a st u n d (py_print m s))) = failed_icons s
   \<or> failed_icons (state_of (download_icon env a st u n d (py_print m s)))
        = failed_icons s @ [\<lparr>name = n, appid = a, reason = ''failed_to_download''\<rparr>]"
  by (simp add: download_icon_failed split: sum.splits) (simp add: state_defs)

lemma download_and_extract_try_failed:
  "failed_icons (state_of (download_and_extract_try env url p s)) = failed_icons s"
  by (simp add: download_and_extract_try_def state_defs Let_def split: sum.splits option.splits)

lemma download_and_extract_failed:
  "failed_icons (state_of (download_and_extract env url p s)) = failed_icons s"
  using download_and_extract_try_failed [of env url p s]
  by (auto simp: download_and_extract_def state_defs
      split: res.splits exn.splits exn_class.splits)

lemma acquire_steamcmd_try_failed:
  "failed_icons (state_of (acquire_steamcmd_try env d x s)) = failed_icons s"
  using download_and_extract_failed [of env steamcmd_zip_url d s]
  by (auto simp: acquire_steamcmd_try_def state_defs Let_def
      split: res.splits option.splits exn.splits exn_class.splits)

lemma ensure_steamcmd_failed:
  "failed_icons (state_of (ensure_steamcmd env d x s)) = failed_icons s"
proof (cases "path_exists env (trace s) x")
  case True
  then show ?thesis by (simp add: ensure_steamcmd_def state_defs)
next
  case False
  let ?s1 = "py_print ''Downloading SteamCMD...''
               (py_print (''SteamCMD not found in the following path: '' @ d) s)"
  have "failed_icons (state_of (acquire_steamcmd_try env d x ?s1)) = failed_icons s"
    by (simp add: acquire_steamcmd_try_failed) (simp add: state_defs)
  with False show ?thesis
    by (auto simp: ensure_steamcmd_def state_defs split: res.splits exn.splits)
qed

lemma scan_lines_none:
  "\<forall>l \<in> set lines. \<not> contains clienticon_key l \<Longrightarrow>
     scan_lines env d a n lines s = (Ok s, False)"
  by (induction lines) simp_all

lemma scan_lines_unfound:
  "scan_lines env d a n lines s = (Ok s', False) \<Longrightarrow>
     s' = s \<and> (\<forall>l \<in> set lines. \<not> contains clienticon_key l)"
proof (induction lines)
  case Nil
  then show ?case by simp
next
  case (Cons l ls)
  show ?case
  proof (cases "contains clienticon_key l")
    case True
    then have "3 \<le> length (split_on dquote (strip l))" by (rule clienticon_parts)
    with True Cons.prems show ?thesis
      by (simp add: Let_def split: if_splits)
  next
    case False
    with Cons show ?thesis by simp
  qed
qed

lemma scan_lines_failed:
  "failed_icons (state_of (fst (scan_lines env d a n lines s))) = failed_icons s
   \<or> failed_icons (state_of (fst (scan_lines env d a n lines s)))
        = failed_icons s @ [\<lparr>name = n, appid = a, reason = ''failed_to_download''\<rparr>]"
proof (induction lines)
  case Nil
  then show ?case by simp
next
  case (Cons l ls)
  then show ?case
    using download_after_print_failed [of env a _ _ n d _ s] by (simp add: Let_def)
qed

lemma fallback_try_not_found:
  assumes "scans_without_icon env x a s"
  shows "failed_icons (state_of (fallback_try env d x a n s))
           = failed_icons s @ [\<lparr>name = n, appid = a, reason = ''icon_not_found''\<rparr>]"
proof -
  let ?cmd = "steamcmd_command x a"
  let ?s2 = "emit Sleep (emit (Run ?cmd) s)"
  from assms obtain lines where run: "subprocess_run env (trace s) ?cmd = None"
    and rd: "readlines env (trace ?s2) output_file = Inr lines"
    and no: "\<forall>l \<in> set lines. \<not> contains clienticon_key l"
    by (auto simp: scans_without_icon_def Let_def split: sum.splits)
  from no have "scan_lines env d a n lines ?s2 = (Ok ?s2, False)" by (rule scan_lines_none)
  with run rd show ?thesis
    by (simp add: fallback_try_def Let_def) (simp add: state_defs)
qed

lemma fallback_try_otherwise:
  assumes "\<not> scans_without_icon env x a s"
  shows "failed_icons (state_of (fallback_try env d x a n s)) = failed_icons s
       \<or> failed_icons (state_of (fallback_try env d x a n s))
            = failed_icons s @ [\<lparr>name = n, appid = a, reason = ''failed_to_download''\<rparr>]"
proof -
  let ?cmd = "steamcmd_command x a"
  let ?s2 = "emit Sleep (emit (Run ?cmd) s)"
  have s2: "failed_icons ?s2 = failed_icons s" by (simp add: state_defs)
  show ?thesis
  proof (cases "subprocess_run env (trace s) ?cmd")
    case (Some e)
    then show ?thesis by (simp add: fallback_try_def Let_def state_defs)
  next
    case None
    show ?thesis
    proof (cases "readlines env (trace ?s2) output_file")
      case (Inl e)
      with None show ?thesis by (simp add: fallback_try_def Let_def) (simp add: state_defs)
    next
      case (Inr lines)
      obtain r b where sc: "scan_lines env d a n lines ?s2 = (r, b)"
        by (cases "scan_lines env d a n lines ?s2")
      have fr: "failed_icons (state_of r) = failed_icons s
          \<or> failed_icons (state_of r)
               = failed_icons s @ [\<lparr>name = n, appid = a, reason = ''failed_to_download''\<rparr>]"
        using scan_lines_failed [of env d a n lines ?s2] sc s2 by simp
      have nb: "b" if "r = Ok s3" for s3
      proof (rule ccontr)
        assume "\<not> b"
        with sc that have "scan_lines env d a n lines ?s2 = (Ok s3, False)" by simp
        then have "\<forall>l \<in> set lines. \<not> contains clienticon_key l"
          using scan_lines_unfound by blast
        with None Inr assms show False by (simp add: scans_without_icon_def Let_def)
      qed
      have "fallback_try env d x a n s = r"
        using None Inr sc nb by (cases r) (auto simp: fallback_try_def Let_def)
      with fr show ?thesis by simp
    qed
  qed
qed

lemma fast_path_try_failed:
  "failed_icons (state_of (fast_path_try env d a n s)) = failed_icons s
   \<or> failed_icons (state_of (fast_path_try env d a n s))
        = failed_icons s @ [\<lparr>name = n, appid = a, reason = ''failed_to_download''\<rparr>]"
  using download_after_print_failed [of env a _ _ n d _ s]
  by (simp add: fast_path_try_def Let_def state_defs split: sum.splits option.splits)

lemma handler_failed:
  "failed_icons (state_of (case r of Raised (Exn c m) s' \<Rightarrow> Ok (py_print (h m) s') | r' \<Rightarrow> r'))
     = failed_icons (state_of r)"
  by (cases r) (auto simp: state_defs split: exn.splits)

lemma fast_path_failed:
  "failed_icons (state_of (fast_path env d a n s)) = failed_icons s
   \<or> failed_icons (state_of (fast_path env d a n s))
        = failed_icons s @ [\<lparr>name = n, appid = a, reason = ''failed_to_download''\<rparr>]"
  unfolding fast_path_def handler_failed by (rule fast_path_try_failed)

lemma called_process_handler_failed:
  "failed_icons (state_of (case r of
       Raised (Exn CalledProcessError m) s' \<Rightarrow> Ok (py_print (h m) s') | r' \<Rightarrow> r'))
     = failed_icons (state_of r)"
  by (cases r) (auto simp: state_defs split: exn.splits exn_class.splits)

lemma fallback_path_exit:
  assumes "\<forall>s1. ensure_steamcmd env d (steamcmd_exe_path env d) s \<noteq> Ok s1"
  shows "failed_icons (state_of (fallback_path env d a n s)) = failed_icons s"
  using assms ensure_steamcmd_failed [of env d "steamcmd_exe_path env d" s]
  by (cases "ensure_steamcmd env d (steamcmd_exe_path env d) s")
     (simp_all add: fallback_path_def)

lemma fallback_path_ready:
  assumes "ensure_steamcmd env d (steamcmd_exe_path env d) s = Ok s1"
  shows "failed_icons (state_of (fallback_path env d a n s))
           = failed_icons (state_of (fallback_try env d (steamcmd_exe_path env d) a n s1))
         \<and> failed_icons s1 = failed_icons s"
  using assms ensure_steamcmd_failed [of env d "steamcmd_exe_path env d" s]
  by (simp add: fallback_path_def called_process_handler_failed)

text \<open>
  The three outcomes of one acquisition on the failure list: \<open>icon_not_found\<close> after a
  complete scan of the fallback path that found no key, and otherwise nothing or
  \<open>failed_to_download\<close>.
\<close>

lemma fetch_failed_cases:
  "(\<not> client_connected env (trace s)
      \<and> (\<exists>s1. ensure_steamcmd env d (steamcmd_exe_path env d) (py_print not_connected_msg s) = Ok s1
               \<and> scans_without_icon env (steamcmd_exe_path env d) a s1)
      \<and> failed_icons (state_of (fetch_icon_by_app_id env d a n s))
            = failed_icons s @ [\<lparr>name = n, appid = a, reason = ''icon_not_found''\<rparr>])
   \<or> (\<not> (\<not> client_connected env (trace s)
           \<and> (\<exists>s1. ensure_steamcmd env d (steamcmd_exe_path env d) (py_print not_connected_msg s) = Ok s1
                    \<and> scans_without_icon env (steamcmd_exe_path env d) a s1))
      \<and> (failed_icons (state_of (fetch_icon_by_app_id env d a n s)) = failed_icons s
          \<or> failed_icons (state_of (fetch_icon_by_app_id env d a n s))
               = failed_icons s @ [\<lparr>name = n, appid = a, reason = ''failed_to_download''\<rparr>]))"
proof (cases "client_connected env (trace s)")
  case True
  then have "fetch_icon_by_app_id env d a n s = fast_path env d a n s"
    by (simp add: fetch_icon_by_app_id_def)
  with fast_path_failed [of env d a n s] True show ?thesis by auto
next
  case False
  let ?s0 = "py_print not_connected_msg s"
  let ?x = "steamcmd_exe_path env d"
  have s0: "failed_icons ?s0 = failed_icons s" by (simp add: state_defs)
  have fe: "fetch_icon_by_app_id env d a n s = fallback_path env d a n ?s0"
    using False by (simp add: fetch_icon_by_app_id_def)
  show ?thesis
  proof (cases "\<exists>s1. ensure_steamcmd env d ?x ?s0 = Ok s1")
    case nex: False
    then have "failed_icons (state_of (fallback_path env d a n ?s0)) = failed_icons s"
      using fallback_path_exit [of env d ?s0 a n] s0 by simp
    with nex fe show ?thesis by auto
  next
    case True
    then obtain s1 where s1: "ensure_steamcmd env d ?x ?s0 = Ok s1" by blast
    from fallback_path_ready [OF s1, of a n] s0
    have eq: "failed_icons (state_of (fetch_icon_by_app_id env d a n s))
                = failed_icons (state_of (fallback_try env d ?x a n s1))"
      and f1: "failed_icons s1 = failed_icons s"
      using fe by simp_all
    show ?thesis
    proof (cases "scans_without_icon env ?x a s1")
      case sc: True
      from fallback_try_not_found [OF sc, of d n] eq f1 sc s1 False
      show ?thesis by auto
    next
      case nsc: False
      from fallback_try_otherwise [OF nsc, of d n] eq f1 nsc s1
      show ?thesis by auto
    qed
  qed
qed

subsection \<open>The reason \<open>icon_not_found\<close>\<close>

lemma scans_without_icon_iff:
  "scans_without_icon env exe a s \<longleftrightarrow>
     subprocess_run env (trace s) (steamcmd_command exe a) = None \<and>
     (\<exists>lines. readlines env (trace (emit Sleep (emit (Run (steamcmd_command exe a)) s)))
                 output_file = Inr lines
              \<and> (\<forall>line \<in> set lines. \<not> contains clienticon_key line))"
  by (auto simp: scans_without_icon_def Let_def split: sum.splits)

lemma new_failures_append:
  "failed_icons (state_of r) = failed_icons s @ dl \<Longrightarrow> new_failures s r = dl"
  by (simp add: new_failures_def)

lemma new_failures_same:
  "failed_icons (state_of r) = failed_icons s \<Longrightarrow> new_failures s r = []"
  by (simp add: new_failures_def)

text \<open>
  C2. An acquisition appends a record with the reason \<open>icon_not_found\<close> if and only if
  the session is not connected, the utility is ready, its invocation returns, the output
  file is read and no line of it contains the quoted key \<open>clienticon\<close>; the record is
  then the only one appended, and it is for the identifier being acquired.
\<close>

theorem icon_not_found_iff_full_scan:
  "((\<exists>f \<in> set (new_failures s (fetch_icon_by_app_id env steamPath app_id game_name s)).
       reason f = ''icon_not_found'')
    \<longleftrightarrow>
    (\<not> client_connected env (trace s) \<and>
     (\<exists>s1 lines.
        ensure_steamcmd env steamPath (steamcmd_exe_path env steamPath)
          (py_print not_connected_msg s) = Ok s1
        \<and> subprocess_run env (trace s1)
            (steamcmd_command (steamcmd_exe_path env steamPath) app_id) = None
        \<and> readlines env
            (trace (emit Sleep
               (emit (Run (steamcmd_command (steamcmd_exe_path env steamPath) app_id)) s1)))
            output_file = Inr lines
        \<and> (\<forall>line \<in> set lines. \<not> contains clienticon_key line))))
   \<and> ((\<exists>f \<in> set (new_failures s (fetch_icon_by_app_id env steamPath app_id game_name s)).
         reason f = ''icon_not_found'')
       \<longrightarrow> new_failures s (fetch_icon_by_app_id env steamPath app_id game_name s)
             = [\<lparr>name = game_name, appid = app_id, reason = ''icon_not_found''\<rparr>])"
proof -
  let ?r = "fetch_icon_by_app_id env steamPath app_id game_name s"
  let ?x = "steamcmd_exe_path env steamPath"
  let ?cond = "\<not> client_connected env (trace s)
      \<and> (\<exists>s1. ensure_steamcmd env steamPath ?x (py_print not_connected_msg s) = Ok s1
               \<and> scans_without_icon env ?x app_id s1)"
  have new: "(?cond \<and> new_failures s ?r
                 = [\<lparr>name = game_name, appid = app_id, reason = ''icon_not_found''\<rparr>])
      \<or> (\<not> ?cond \<and> (new_failures s ?r = []
            \<or> new_failures s ?r
                 = [\<lparr>name = game_name, appid = app_id, reason = ''failed_to_download''\<rparr>]))"
    using fetch_failed_cases [of env s steamPath app_id game_name]
    by (auto simp: new_failures_append new_failures_same)
  have iff: "(\<exists>f \<in> set (new_failures s ?r). reason f = ''icon_not_found'') \<longleftrightarrow> ?cond"
    using new by auto
  have one: "(\<exists>f \<in> set (new_failures s ?r). reason f = ''icon_not_found'')
      \<longrightarrow> new_failures s ?r
            = [\<lparr>name = game_name, appid = app_id, reason = ''icon_not_found''\<rparr>]"
    using new by auto
  from iff one show ?thesis
    unfolding scans_without_icon_iff by blast
qed

theorem icon_not_found_iff_full_scan_witness:
  "new_failures initial_state
     (fetch_icon_by_app_id offline_world steam_dir ''9999999'' [] initial_state)
   = [\<lparr>name = [], appid = ''9999999'', reason = ''icon_not_found''\<rparr>]"
proof -
  have "\<not> client_connected offline_world (trace initial_state) \<and>
     (\<exists>s1 lines.
        ensure_steamcmd offline_world steam_dir (steamcmd_exe_path offline_world steam_dir)
          (py_print not_connected_msg initial_state) = Ok s1
        \<and> subprocess_run offline_world (trace s1)
            (steamcmd_command (steamcmd_exe_path offline_world steam_dir) ''9999999'') = None
        \<and> readlines offline_world
            (trace (emit Sleep
               (emit (Run (steamcmd_command (steamcmd_exe_path offline_world steam_dir)
                  ''9999999'')) s1)))
            output_file = Inr lines
        \<and> (\<forall>line \<in> set lines. \<not> contains clienticon_key line))"
    by (simp add: offline_world_def ensure_steamcmd_def)
  then show ?thesis
    using icon_not_found_iff_full_scan
      [of initial_state offline_world steam_dir "''9999999''" "[]"]
    by blast
qed

subsection \<open>The fast path without an icon\<close>

text \<open>
  C3. With the session connected, an acquisition that gets no client icon from the
  metadata (the retrieval throws, the answer is empty, the product entry is absent, or
  the entry has no \<open>clienticon\<close> under \<open>common\<close>) returns normally, and the state it
  returns is the one it was given with a single printed message added: nothing is
  appended to the failure list, no command is run, nothing is requested or written.
\<close>

theorem connected_without_icon_only_logs:
  assumes "client_connected env (trace s)"
  shows
    "(py_int env app_id = Inl (Exn c m) \<longrightarrow>
        fetch_icon_by_app_id env steamPath app_id game_name s
          = Ok (py_print (''[FAST] An error occurred: '' @ m) s))
     \<and> (py_int env app_id = Inr n \<and> get_product_info env (trace s) n = Inl (Exn c m) \<longrightarrow>
          fetch_icon_by_app_id env steamPath app_id game_name s
            = Ok (py_print (''[FAST] An error occurred: '' @ m) s))
     \<and> (py_int env app_id = Inr n \<and> get_product_info env (trace s) n = Inr [] \<longrightarrow>
          fetch_icon_by_app_id env steamPath app_id game_name s
            = Ok (py_print (''[FAST] Unable to get product info for app ID:  '' @ app_id) s))
     \<and> (py_int env app_id = Inr n \<and> get_product_info env (trace s) n = Inr info
          \<and> info \<noteq> [] \<and> map_of info ''apps'' = None \<longrightarrow>
          fetch_icon_by_app_id env steamPath app_id game_name s
            = Ok (py_print (''[FAST] An error occurred: '' @ [squote] @ ''apps'' @ [squote]) s))
     \<and> (py_int env app_id = Inr n \<and> get_product_info env (trace s) n = Inr info
          \<and> info \<noteq> [] \<and> map_of info ''apps'' = Some apps \<and> map_of apps n = None \<longrightarrow>
          fetch_icon_by_app_id env steamPath app_id game_name s
            = Ok (py_print (''[FAST] An error occurred: '' @ show_int n) s))
     \<and> (py_int env app_id = Inr n \<and> get_product_info env (trace s) n = Inr info
          \<and> info \<noteq> [] \<and> map_of info ''apps'' = Some apps \<and> map_of apps n = Some app
          \<and> clienticon_of app = None \<longrightarrow>
          fetch_icon_by_app_id env steamPath app_id game_name s
            = Ok (py_print (''[FAST] Unable to find '' @ [squote] @ ''clienticon'' @ [squote]
                    @ '' in the app info'') s))"
  using assms
  by (simp add: fetch_icon_by_app_id_def fast_path_def fast_path_try_def)

theorem connected_without_icon_only_logs_witness:
  "client_connected (connected_world app_without_icon 200) (trace initial_state)
   \<and> py_int (connected_world app_without_icon 200) ''730'' = Inr 730
   \<and> clienticon_of app_without_icon = None
   \<and> fetch_icon_by_app_id (connected_world app_without_icon 200) steam_dir ''730''
        ''Counter-Strike 2'' initial_state
      = Ok (initial_state\<lparr>trace :=
              [Print (''[FAST] Unable to find '' @ [squote] @ ''clienticon'' @ [squote]
                 @ '' in the app info'')]\<rparr>)"
proof -
  let ?w = "connected_world app_without_icon 200"
  have c: "client_connected ?w (trace initial_state)"
    by (simp add: connected_world_def offline_world_def)
  have i: "py_int ?w ''730'' = Inr 730"
    by (simp add: connected_world_def offline_world_def decimal_def digit_val_def)
  have g: "get_product_info ?w (trace initial_state) 730
             = Inr [(''apps'', [(730, app_without_icon)]), (''packages'', [])]"
    by (simp add: connected_world_def offline_world_def)
  have a: "clienticon_of app_without_icon = None"
    by (simp add: clienticon_of_def app_without_icon_def)
  from connected_without_icon_only_logs [OF c, of "''730''" _ _ steam_dir "''Counter-Strike 2''" 730
      "[(''apps'', [(730, app_without_icon)]), (''packages'', [])]" "[(730, app_without_icon)]"
      app_without_icon] i g a
  have "fetch_icon_by_app_id ?w steam_dir ''730'' ''Counter-Strike 2'' initial_state
      = Ok (py_print (''[FAST] Unable to find '' @ [squote] @ ''clienticon'' @ [squote]
              @ '' in the app info'') initial_state)"
    by simp
  with c i a show ?thesis by (simp add: py_print_def emit_def initial_state_def)
qed

subsection \<open>The download step\<close>

lemma gets_of_append: "gets_of (xs @ ys) = gets_of xs @ gets_of ys"
  by (induction xs rule: gets_of.induct) simp_all

lemma writes_of_append: "writes_of (xs @ ys) = writes_of xs @ writes_of ys"
  by (induction xs rule: writes_of.induct) simp_all

lemma runs_of_append: "runs_of (xs @ ys) = runs_of xs @ runs_of ys"
  by (induction xs rule: runs_of.induct) simp_all

text \<open>Both paths hand the identifier and the stem they found to the download step, with the URL built from them.\<close>

lemma fast_path_downloads:
  assumes "client_connected env (trace s)" and "py_int env app_id = Inr n"
    and "get_product_info env (trace s) n = Inr info" and "info \<noteq> []"
    and "map_of info ''apps'' = Some apps" and "map_of apps n = Some app"
    and "clienticon_of app = Some stem"
  shows "fast_path_try env steamPath app_id game_name s
     = download_icon env app_id stem (icon_url app_id stem) game_name steamPath
         (py_print (''[FAST] Client Icon URL for '' @ game_name @ '' - '' @ app_id @ '': ''
            @ icon_url app_id stem) s)"
  using assms by (simp add: fast_path_try_def Let_def)

lemma scan_lines_downloads:
  assumes "\<forall>l \<in> set before. \<not> contains clienticon_key l"
    and "contains clienticon_key line"
    and "3 < length (split_on dquote (strip line))"
    and "stem = split_on dquote (strip line) ! 3"
  shows "scan_lines env steamPath app_id game_name (before @ line # rest) s
     = (download_icon env app_id stem (icon_url app_id stem) game_name steamPath
          (py_print (''Client Icon URL for '' @ game_name @ '' - '' @ app_id @ '': ''
             @ icon_url app_id stem) s), True)"
  using assms by (induction before) (simp_all add: Let_def)

text \<open>
  C5. For an identifier and a stem, the download step requests once the URL
  \<open>https://cdn.cloudflare.steamstatic.com/steamcommunity/public/images/apps/<appId>/<stem>.ico\<close>.
  When the answer has status 200, the body is written to the path joined from the
  installation directory, \<open>steam\<close>, \<open>games\<close> and \<open><stem>.ico\<close>, after the directories above
  it were created, and the failure list is unchanged; with any other status nothing is
  written and a record with the reason \<open>failed_to_download\<close> is appended.
\<close>

theorem download_step:
  assumes "requests_get env (trace s) (icon_url app_id stem) = Inr response"
  shows "\<exists>s'. download_icon env app_id stem (icon_url app_id stem) game_name installDir s = Ok s'
     \<and> icon_url app_id stem
         = ''https://cdn.cloudflare.steamstatic.com/steamcommunity/public/images/apps/''
             @ app_id @ ''/'' @ stem @ ''.ico''
     \<and> gets_of (trace s') = gets_of (trace s) @ [icon_url app_id stem]
     \<and> (status_code response = 200 \<longrightarrow>
           files s' = (files s)(path_join env installDir [''steam'', ''games'', stem @ ''.ico'']
                                  \<mapsto> content response)
         \<and> writes_of (trace s')
             = writes_of (trace s)
                 @ [(path_join env installDir [''steam'', ''games'', stem @ ''.ico''],
                     content response)]
         \<and> MakeDirs (path_dirname env
               (path_join env installDir [''steam'', ''games'', stem @ ''.ico'']))
             \<in> set (trace s')
         \<and> failed_icons s' = failed_icons s)
     \<and> (status_code response \<noteq> 200 \<longrightarrow>
           files s' = files s
         \<and> writes_of (trace s') = writes_of (trace s)
         \<and> failed_icons s'
             = failed_icons s
                 @ [\<lparr>name = game_name, appid = app_id, reason = ''failed_to_download''\<rparr>])"
  using assms
  by (simp add: download_icon_def icon_file_path_def Let_def state_defs gets_of_append
      writes_of_append icon_url_def)

theorem download_step_witness:
  "requests_get (connected_world app_with_icon 200) (trace initial_state)
     (icon_url ''730'' ''icon_abc'') = Inr \<lparr>status_code = 200, content = ''ICO''\<rparr>
   \<and> is_Ok (download_icon (connected_world app_with_icon 200) ''730'' ''icon_abc''
        (icon_url ''730'' ''icon_abc'') ''Counter-Strike 2'' steam_dir initial_state)
   \<and> gets_of (trace (state_of (download_icon (connected_world app_with_icon 200) ''730''
        ''icon_abc'' (icon_url ''730'' ''icon_abc'') ''Counter-Strike 2'' steam_dir
        initial_state)))
      = [''https://cdn.cloudflare.steamstatic.com/steamcommunity/public/images/apps/730/icon_abc.ico'']
   \<and> files (state_of (download_icon (connected_world app_with_icon 200) ''730'' ''icon_abc''
        (icon_url ''730'' ''icon_abc'') ''Counter-Strike 2'' steam_dir initial_state))
        (steam_dir @ [backslash] @ ''steam'' @ [backslash] @ ''games'' @ [backslash]
           @ ''icon_abc.ico'')
      = Some ''ICO''
   \<and> failed_icons (state_of (download_icon (connected_world app_with_icon 200) ''730''
        ''icon_abc'' (icon_url ''730'' ''icon_abc'') ''Counter-Strike 2'' steam_dir
        initial_state)) = []"
proof -
  let ?w = "connected_world app_with_icon 200"
  have h: "requests_get ?w (trace initial_state) (icon_url ''730'' ''icon_abc'')
             = Inr \<lparr>status_code = 200, content = ''ICO''\<rparr>"
    by (simp add: connected_world_def offline_world_def)
  from download_step [OF h, of "''Counter-Strike 2''" steam_dir]
  obtain s' where ok: "download_icon ?w ''730'' ''icon_abc'' (icon_url ''730'' ''icon_abc'')
        ''Counter-Strike 2'' steam_dir initial_state = Ok s'"
    and g: "gets_of (trace s') = gets_of (trace initial_state) @ [icon_url ''730'' ''icon_abc'']"
    and f: "files s' = (files initial_state)
               (path_join ?w steam_dir [''steam'', ''games'', ''icon_abc'' @ ''.ico'']
                  \<mapsto> ''ICO'')"
    and l: "failed_icons s' = failed_icons initial_state"
    by auto
  have p: "path_join ?w steam_dir [''steam'', ''games'', ''icon_abc'' @ ''.ico'']
      = steam_dir @ [backslash] @ ''steam'' @ [backslash] @ ''games'' @ [backslash]
          @ ''icon_abc.ico''"
    by (simp add: connected_world_def offline_world_def win_join_def)
  from h ok g f l p show ?thesis
    by (simp add: initial_state_def icon_url_def)
qed

subsection \<open>Idempotence of the download\<close>

text \<open>
  C9. When the download step runs twice for the same identifier and stem, and both
  requests are answered with status 200 and the same bytes, the icon file holds these
  bytes after the first run and after the second, at the same path, and the second run
  leaves every file as the first left it.
\<close>

theorem download_icon_idempotent:
  assumes "requests_get env (trace s) url = Inr r1" and "status_code r1 = 200"
    and "download_icon env app_id stem url game_name installDir s = Ok s1"
    and "requests_get env (trace s1) url = Inr r2" and "status_code r2 = 200"
    and "content r2 = content r1"
  shows "\<exists>s2. download_icon env app_id stem url game_name installDir s1 = Ok s2
     \<and> files s1 (icon_file_path env installDir stem) = Some (content r1)
     \<and> files s2 (icon_file_path env installDir stem) = Some (content r1)
     \<and> files s2 = files s1"
proof -
  from assms(1-3) have f1: "files s1 = (files s)(icon_file_path env installDir stem \<mapsto> content r1)"
    by (auto simp: download_icon_def Let_def state_defs)
  from assms(4-6) f1 show ?thesis
    by (simp add: download_icon_def Let_def state_defs)
qed

theorem download_icon_idempotent_witness:
  "is_Ok (download_icon (connected_world app_with_icon 200) ''730'' ''icon_abc''
      (icon_url ''730'' ''icon_abc'') ''Counter-Strike 2'' steam_dir
      (state_of (download_icon (connected_world app_with_icon 200) ''730'' ''icon_abc''
         (icon_url ''730'' ''icon_abc'') ''Counter-Strike 2'' steam_dir initial_state)))
   \<and> files (state_of (download_icon (connected_world app_with_icon 200) ''730'' ''icon_abc''
      (icon_url ''730'' ''icon_abc'') ''Counter-Strike 2'' steam_dir
      (state_of (download_icon (connected_world app_with_icon 200) ''730'' ''icon_abc''
         (icon_url ''730'' ''icon_abc'') ''Counter-Strike 2'' steam_dir initial_state))))
     = files (state_of (download_icon (connected_world app_with_icon 200) ''730'' ''icon_abc''
         (icon_url ''730'' ''icon_abc'') ''Counter-Strike 2'' steam_dir initial_state))
   \<and> files (state_of (download_icon (connected_world app_with_icon 200) ''730'' ''icon_abc''
         (icon_url ''730'' ''icon_abc'') ''Counter-Strike 2'' steam_dir initial_state))
        (icon_file_path (connected_world app_with_icon 200) steam_dir ''icon_abc'')
     = Some ''ICO''"
proof -
  let ?w = "connected_world app_with_icon 200"
  let ?u = "icon_url ''730'' ''icon_abc''"
  let ?r = "\<lparr>status_code = 200, content = ''ICO''\<rparr>"
  obtain s1 where s1: "download_icon ?w ''730'' ''icon_abc'' ?u ''Counter-Strike 2'' steam_dir
      initial_state = Ok s1"
    by (simp add: download_icon_def connected_world_def offline_world_def Let_def)
  have g: "requests_get ?w tr ?u = Inr ?r" for tr
    by (simp add: connected_world_def offline_world_def)
  have "\<exists>s2. download_icon ?w ''730'' ''icon_abc'' ?u ''Counter-Strike 2'' steam_dir s1 = Ok s2
     \<and> files s1 (icon_file_path ?w steam_dir ''icon_abc'') = Some (content ?r)
     \<and> files s2 (icon_file_path ?w steam_dir ''icon_abc'') = Some (content ?r)
     \<and> files s2 = files s1"
    by (rule download_icon_idempotent [OF g _ s1 g]) simp_all
  with s1 show ?thesis by auto
qed

subsection \<open>A failing invocation of the utility\<close>

text \<open>
  C8, as the code has it. When the session is not connected, the utility is ready and its
  invocation for the identifier exits with a status other than zero
  (\<open>CalledProcessError\<close>), the error is caught and printed and the acquisition returns
  normally; the invocation and the message are all that happens after the utility was
  made ready. The output file is not read, so nothing is requested, nothing is written
  and no record is appended.
\<close>

theorem nonzero_exit_skips_scan:
  assumes "\<not> client_connected env (trace s)"
    and "ensure_steamcmd env steamPath (steamcmd_exe_path env steamPath)
           (py_print not_connected_msg s) = Ok s1"
    and "subprocess_run env (trace s1)
           (steamcmd_command (steamcmd_exe_path env steamPath) app_id)
         = Some (Exn CalledProcessError m)"
  shows "fetch_icon_by_app_id env steamPath app_id game_name s
     = Ok (py_print (''Error: '' @ m)
            (emit (Run (steamcmd_command (steamcmd_exe_path env steamPath) app_id)) s1))"
  using assms
  by (simp add: fetch_icon_by_app_id_def fallback_path_def fallback_try_def Let_def)

theorem nonzero_exit_skips_scan_witness:
  "\<not> client_connected failing_steamcmd_world (trace initial_state)
   \<and> fetch_icon_by_app_id failing_steamcmd_world steam_dir ''730'' ''Counter-Strike 2''
        initial_state
      = Ok (initial_state\<lparr>trace :=
              [Print not_connected_msg,
               Print (''SteamCMD found in the following path: '' @ steam_dir),
               Run (steamcmd_command (steam_dir @ [backslash] @ ''steamcmd.exe'') ''730''),
               Print ''Error: Command returned non-zero exit status 1.'']\<rparr>)"
proof -
  let ?w = "failing_steamcmd_world"
  let ?s1 = "py_print (''SteamCMD found in the following path: '' @ steam_dir)
               (py_print not_connected_msg initial_state)"
  have c: "\<not> client_connected ?w (trace initial_state)"
    by (simp add: failing_steamcmd_world_def offline_world_def)
  have e: "ensure_steamcmd ?w steam_dir (steamcmd_exe_path ?w steam_dir)
             (py_print not_connected_msg initial_state) = Ok ?s1"
    by (simp add: ensure_steamcmd_def failing_steamcmd_world_def offline_world_def)
  have r: "subprocess_run ?w (trace ?s1) (steamcmd_command (steamcmd_exe_path ?w steam_dir) ''730'')
             = Some (Exn CalledProcessError ''Command returned non-zero exit status 1.'')"
    by (simp add: failing_steamcmd_world_def offline_world_def nonzero_exit_def)
  have x: "steamcmd_exe_path ?w steam_dir = steam_dir @ [backslash] @ ''steamcmd.exe''"
    by (simp add: steamcmd_exe_path_def failing_steamcmd_world_def offline_world_def win_join_def)
  from nonzero_exit_skips_scan [OF c e r, of "''Counter-Strike 2''"] c x
  show ?thesis by (simp add: state_defs initial_state_def)
qed

text \<open>
  The claim as stated fails: here the utility exits with a status other than zero and
  the output file names the icon (its second line has the key, and the stem \<open>icon_abc\<close>
  as fourth part), yet the acquisition ends after the error message, with no request to
  the CDN and no record.
\<close>

theorem nonzero_exit_counterexample:
  "readlines failing_steamcmd_world [] output_file = Inr usable_output
   \<and> contains clienticon_key (usable_output ! 1)
   \<and> split_on dquote (strip (usable_output ! 1)) ! 3 = ''icon_abc''
   \<and> gets_of (trace (state_of (fetch_icon_by_app_id failing_steamcmd_world steam_dir ''730''
        ''Counter-Strike 2'' initial_state))) = []
   \<and> failed_icons (state_of (fetch_icon_by_app_id failing_steamcmd_world steam_dir ''730''
        ''Counter-Strike 2'' initial_state)) = []
   \<and> Sleep \<notin> set (trace (state_of (fetch_icon_by_app_id failing_steamcmd_world steam_dir
        ''730'' ''Counter-Strike 2'' initial_state)))"
  by (simp add: fetch_icon_by_app_id_def fallback_path_def fallback_try_def
      ensure_steamcmd_def failing_steamcmd_world_def offline_world_def nonzero_exit_def
      usable_output_def icon_line_def clienticon_key_def dquote_def newline_def strip_def
      isspace_def state_defs initial_state_def Let_def)

subsection \<open>Errors that leave the acquisition\<close>

text \<open>
  C1. The fast path catches every exception. The fallback path catches only
  \<open>CalledProcessError\<close>: with the session not connected, SteamCMD naming the icon and the
  CDN out of reach, the exception of the request leaves \<^verbatim>\<open>fetch_icon_by_app_id\<close> and
  \<^verbatim>\<open>main\<close>. Of the two identifiers asked for, the second is never processed, and
  no report is printed.
\<close>

theorem fallback_download_error_aborts_batch:
  "raised_class (fetch_icon_by_app_id unreachable_cdn_world steam_dir ''730'' [] initial_state)
     = Some RequestException
   \<and> raised_class (main unreachable_cdn_world [''SteamIconsFix.py'', ''730'', ''440''] Map.empty)
     = Some RequestException
   \<and> runs_of (trace (state_of
        (main unreachable_cdn_world [''SteamIconsFix.py'', ''730'', ''440''] Map.empty)))
     = [steamcmd_command (steam_dir @ [backslash] @ ''steamcmd.exe'') ''730'']
   \<and> failed_icons (state_of
        (main unreachable_cdn_world [''SteamIconsFix.py'', ''730'', ''440''] Map.empty)) = []
   \<and> Logout \<notin> set (trace (state_of
        (main unreachable_cdn_world [''SteamIconsFix.py'', ''730'', ''440''] Map.empty)))"
  by (simp add: main_def dispatch_def get_steam_games_def logged_in_def raised_class_def
      fetch_icon_by_app_id_def fallback_path_def fallback_try_def ensure_steamcmd_def
      download_icon_def steamcmd_exe_path_def win_join_def
      unreachable_cdn_world_def offline_world_def connection_error_def
      usable_output_def icon_line_def clienticon_key_def dquote_def newline_def strip_def
      isspace_def state_defs initial_state_def Let_def steam_dir_nonempty)

text \<open>
  The same request failing on the fast path is caught there: the acquisition returns
  normally.
\<close>

lemma fast_path_never_raises: "raised_class (fast_path env d a n s) = None"
proof -
  have "\<And>r. raised_class (case r of Raised (Exn c m) s' \<Rightarrow> Ok (py_print (h m) s') | r' \<Rightarrow> r')
      = None" for h
    by (simp add: raised_class_def split: res.splits exn.splits)
  then show ?thesis by (simp add: fast_path_def)
qed

subsection \<open>The bounds of the parsed line\<close>

text \<open>
  C10. A line that has the quoted key and nothing after it splits into three parts
  only. The test of line 270 lets it pass, and reading the part at index 3 raises
  \<open>IndexError\<close>, which leaves \<^verbatim>\<open>fetch_icon_by_app_id\<close>.
\<close>

theorem clienticon_line_out_of_bounds:
  "contains clienticon_key (truncated_output ! 1)
   \<and> length (split_on dquote (strip (truncated_output ! 1))) = 3
   \<and> raised_class (fetch_icon_by_app_id truncated_world steam_dir ''730'' ''Counter-Strike 2''
        initial_state) = Some IndexError"
  by (simp add: raised_class_def fetch_icon_by_app_id_def fallback_path_def fallback_try_def
      ensure_steamcmd_def truncated_world_def offline_world_def truncated_output_def
      clienticon_key_def dquote_def newline_def strip_def isspace_def state_defs
      initial_state_def Let_def)

subsection \<open>A download of the utility that fails\<close>

text \<open>
  C7. SteamCMD is missing and what is downloaded is not a zip archive.
  \<^verbatim>\<open>download_and_extract\<close> catches \<open>BadZipFile\<close> itself and returns normally, so the
  handler of the caller that exits the process is never reached: the run prints that
  SteamCMD was downloaded, invokes it for both identifiers, downloads the archive again
  for the second, and ends with a report and the logout.
\<close>

theorem bad_zip_does_not_abort:
  "is_Ok (main bad_zip_world [''SteamIconsFix.py'', ''730'', ''440''] Map.empty)
   \<and> runs_of (trace (state_of
        (main bad_zip_world [''SteamIconsFix.py'', ''730'', ''440''] Map.empty)))
     = [quit_command (steam_dir @ [backslash] @ ''steamcmd.exe''),
        steamcmd_command (steam_dir @ [backslash] @ ''steamcmd.exe'') ''730'',
        quit_command (steam_dir @ [backslash] @ ''steamcmd.exe''),
        steamcmd_command (steam_dir @ [backslash] @ ''steamcmd.exe'') ''440'']
   \<and> gets_of (trace (state_of
        (main bad_zip_world [''SteamIconsFix.py'', ''730'', ''440''] Map.empty)))
     = [steamcmd_zip_url, steamcmd_zip_url]
   \<and> Print ''SteamCMD downloaded successfully'' \<in> set (trace (state_of
        (main bad_zip_world [''SteamIconsFix.py'', ''730'', ''440''] Map.empty)))
   \<and> last (trace (state_of
        (main bad_zip_world [''SteamIconsFix.py'', ''730'', ''440''] Map.empty))) = Logout"
  by (simp add: main_def dispatch_def get_steam_games_def logged_in_def report_def
      fetch_icon_by_app_id_def fallback_path_def fallback_try_def ensure_steamcmd_def
      acquire_steamcmd_try_def download_and_extract_def download_and_extract_try_def
      steamcmd_exe_path_def win_join_def bad_zip_world_def offline_world_def nonzero_exit_def
      state_defs initial_state_def Let_def steam_dir_nonempty)

text \<open>The archive alone: the error is printed and the function returns normally.\<close>

lemma bad_zip_is_swallowed:
  "download_and_extract bad_zip_world steamcmd_zip_url steam_dir initial_state
     = Ok (initial_state\<lparr>trace :=
             [Get steamcmd_zip_url,
              Print ''A zip file exception occurred:  File is not a zip file'']\<rparr>)"
  by (simp add: download_and_extract_def download_and_extract_try_def bad_zip_world_def
      offline_world_def state_defs initial_state_def Let_def)

text \<open>
  In general: once the directory is there and writeable, \<^verbatim>\<open>download_and_extract\<close>
  returns normally, whatever the request, the archive and the extraction do.
\<close>

lemma download_and_extract_returns:
  assumes "path_isdir env (trace s) path" and "os_access_w env (trace s) path"
  shows "is_Ok (download_and_extract env url path s)"
proof -
  have "is_Ok (case r of
        Raised (Exn RequestException m) s' \<Rightarrow> Ok (py_print (h1 m) s')
      | Raised (Exn BadZipFile m) s' \<Rightarrow> Ok (py_print (h2 m) s')
      | Raised (Exn c m) s' \<Rightarrow> Ok (py_print (h3 m) s')
      | r' \<Rightarrow> r')" if "\<And>n s'. r \<noteq> Exited n s'" for r h1 h2 h3
    using that by (cases r) (auto split: exn.splits exn_class.splits)
  moreover have "download_and_extract_try env url path s \<noteq> Exited n s'" for n s'
    by (simp add: download_and_extract_try_def Let_def split: sum.splits option.splits)
  ultimately show ?thesis using assms by (simp add: download_and_extract_def)
qed

subsection \<open>The report and the command line for the retry\<close>

lemma fetch_failed_shape:
  "\<exists>dl. failed_icons (state_of (fetch_icon_by_app_id env d a n s)) = failed_icons s @ dl
      \<and> (dl = [] \<or> (\<exists>r. dl = [\<lparr>name = n, appid = a, reason = r\<rparr>]))"
  using fetch_failed_cases [of env s d a n] by auto

lemma fetch_all_failed:
  "\<exists>dl. failed_icons (state_of (fetch_all env sp gs s)) = failed_icons s @ dl
      \<and> subseq (map appid dl) (map appid gs)"
proof (induction gs arbitrary: s)
  case Nil
  then show ?case by simp
next
  case (Cons g gs)
  let ?r = "fetch_icon_by_app_id env sp (appid g) (name g) s"
  obtain d0 where d0: "failed_icons (state_of ?r) = failed_icons s @ d0"
    and sh: "d0 = [] \<or> (\<exists>r. d0 = [\<lparr>name = name g, appid = appid g, reason = r\<rparr>])"
    using fetch_failed_shape [of env sp "appid g" "name g" s] by blast
  from sh have sub0: "subseq (map appid d0) [appid g]" by auto
  show ?case
  proof (cases ?r)
    case (Ok s')
    from Cons.IH [of s'] obtain dl where
      dl: "failed_icons (state_of (fetch_all env sp gs s')) = failed_icons s' @ dl"
      and sub: "subseq (map appid dl) (map appid gs)" by blast
    from Ok d0 have "failed_icons s' = failed_icons s @ d0" by simp
    with dl Ok have "failed_icons (state_of (fetch_all env sp (g # gs) s))
        = failed_icons s @ (d0 @ dl)" by simp
    moreover from sub0 sub have "subseq (map appid (d0 @ dl)) (map appid (g # gs))"
      using list_emb_append_mono [of "(=)" "map appid d0" "[appid g]" "map appid dl" "map appid gs"]
      by simp
    ultimately show ?thesis by blast
  next
    case (Raised e s')
    with d0 have "failed_icons (state_of (fetch_all env sp (g # gs) s)) = failed_icons s @ d0"
      by simp
    moreover from sub0 have "subseq (map appid d0) (map appid (g # gs))"
      using list_emb_append_mono [of "(=)" "map appid d0" "[appid g]" "[]" "map appid gs"]
      by simp
    ultimately show ?thesis by blast
  next
    case (Exited k s')
    with d0 have "failed_icons (state_of (fetch_all env sp (g # gs) s)) = failed_icons s @ d0"
      by simp
    moreover from sub0 have "subseq (map appid d0) (map appid (g # gs))"
      using list_emb_append_mono [of "(=)" "map appid d0" "[appid g]" "[]" "map appid gs"]
      by simp
    ultimately show ?thesis by blast
  qed
qed

lemma fetch_given_step:
  "\<exists>d0. failed_icons (state_of
            (case find (\<lambda>g. appid g = a) games of
               Some g \<Rightarrow> fetch_icon_by_app_id env sp (appid g) (name g) s
             | None \<Rightarrow> fetch_icon_by_app_id env sp a [] (py_print m s)))
          = failed_icons s @ d0
      \<and> subseq (map appid d0) [a]"
proof (cases "find (\<lambda>g. appid g = a) games")
  case None
  obtain d0 where "failed_icons (state_of (fetch_icon_by_app_id env sp a [] (py_print m s)))
        = failed_icons (py_print m s) @ d0"
    and "d0 = [] \<or> (\<exists>r. d0 = [\<lparr>name = [], appid = a, reason = r\<rparr>])"
    using fetch_failed_shape [of env sp a "[]" "py_print m s"] by blast
  with None show ?thesis by (auto simp: state_defs)
next
  case (Some g)
  then have ag: "appid g = a" by (auto simp: find_Some_iff)
  obtain d0 where "failed_icons (state_of (fetch_icon_by_app_id env sp (appid g) (name g) s))
        = failed_icons s @ d0"
    and "d0 = [] \<or> (\<exists>r. d0 = [\<lparr>name = name g, appid = appid g, reason = r\<rparr>])"
    using fetch_failed_shape [of env sp "appid g" "name g" s] by blast
  with Some ag show ?thesis by auto
qed

lemma fetch_given_skip:
  "fetch_given env sp games (''228980'' # ids) s
     = fetch_given env sp games ids
         (py_print (skipping_msg ''228980'') s)"
  by simp

lemma fetch_given_take:
  "a \<noteq> ''228980'' \<Longrightarrow>
   fetch_given env sp games (a # ids) s
     = (case (case find (\<lambda>g. appid g = a) games of
                Some g \<Rightarrow> fetch_icon_by_app_id env sp (appid g) (name g) s
              | None \<Rightarrow>
                  fetch_icon_by_app_id env sp a []
                    (py_print (not_in_libraries_msg a) s)) of
          Ok s' \<Rightarrow> fetch_given env sp games ids s'
        | r \<Rightarrow> r)"
  by simp

lemma keep_order:
  assumes "subseq d0 [a]" and "subseq dl (filter (\<lambda>a. a \<noteq> k) ids)" and "a \<noteq> k"
  shows "subseq (d0 @ dl) (filter (\<lambda>a. a \<noteq> k) (a # ids))"
  using assms list_emb_append_mono [of "(=)" d0 "[a]" dl "filter (\<lambda>a. a \<noteq> k) ids"]
  by simp

lemma fetch_given_failed:
  "\<exists>dl. failed_icons (state_of (fetch_given env sp games ids s)) = failed_icons s @ dl
      \<and> subseq (map appid dl) (filter (\<lambda>a. a \<noteq> ''228980'') ids)"
proof (induction ids arbitrary: s)
  case Nil
  then show ?case by simp
next
  case (Cons a ids)
  show ?case
  proof (cases "a = ''228980''")
    case True
    let ?s' = "py_print (skipping_msg ''228980'') s"
    from Cons.IH [of ?s'] obtain dl where
      dl: "failed_icons (state_of (fetch_given env sp games ids ?s')) = failed_icons ?s' @ dl"
      and sub: "subseq (map appid dl) (filter (\<lambda>a. a \<noteq> ''228980'') ids)" by blast
    have same: "failed_icons ?s' = failed_icons s" by (simp add: state_defs)
    have step: "fetch_given env sp games (a # ids) s = fetch_given env sp games ids ?s'"
      unfolding True by (rule fetch_given_skip)
    have flt: "filter (\<lambda>a. a \<noteq> ''228980'') (a # ids) = filter (\<lambda>a. a \<noteq> ''228980'') ids"
      unfolding True by simp
    from dl sub show ?thesis unfolding step flt same by blast
  next
    case False
    let ?m = "not_in_libraries_msg a"
    let ?r = "case find (\<lambda>g. appid g = a) games of
                Some g \<Rightarrow> fetch_icon_by_app_id env sp (appid g) (name g) s
              | None \<Rightarrow> fetch_icon_by_app_id env sp a [] (py_print ?m s)"
    obtain d0 where d0: "failed_icons (state_of ?r) = failed_icons s @ d0"
      and sub0: "subseq (map appid d0) [a]"
      using fetch_given_step [where a = a and games = games and env = env and sp = sp
          and s = s and m = ?m] by blast
    have step: "fetch_given env sp games (a # ids) s
        = (case ?r of Ok s' \<Rightarrow> fetch_given env sp games ids s' | r \<Rightarrow> r)"
      using False by (rule fetch_given_take)
    have keep: "subseq (map appid (d0 @ dl)) (filter (\<lambda>a. a \<noteq> ''228980'') (a # ids))"
      if "subseq (map appid dl) (filter (\<lambda>a. a \<noteq> ''228980'') ids)" for dl
      using keep_order [OF sub0 that False] by simp
    show ?thesis
    proof (cases ?r)
      case (Ok s')
      from Cons.IH [of s'] obtain dl where
        dl: "failed_icons (state_of (fetch_given env sp games ids s')) = failed_icons s' @ dl"
        and sub: "subseq (map appid dl) (filter (\<lambda>a. a \<noteq> ''228980'') ids)" by blast
      from Ok d0 have "failed_icons s' = failed_icons s @ d0" by simp
      with dl have "failed_icons (state_of (fetch_given env sp games (a # ids) s))
          = failed_icons s @ (d0 @ dl)"
        unfolding step Ok by simp
      moreover note keep [OF sub]
      ultimately show ?thesis by (intro exI conjI)
    next
      case (Raised e s')
      from d0 have "failed_icons (state_of (fetch_given env sp games (a # ids) s))
          = failed_icons s @ (d0 @ [])"
        unfolding step Raised by simp
      moreover have "subseq (map appid (d0 @ [])) (filter (\<lambda>a. a \<noteq> ''228980'') (a # ids))"
        by (rule keep) simp
      ultimately show ?thesis by (intro exI conjI)
    next
      case (Exited k s')
      from d0 have "failed_icons (state_of (fetch_given env sp games (a # ids) s))
          = failed_icons s @ (d0 @ [])"
        unfolding step Exited by simp
      moreover have "subseq (map appid (d0 @ [])) (filter (\<lambda>a. a \<noteq> ''228980'') (a # ids))"
        by (rule keep) simp
      ultimately show ?thesis by (intro exI conjI)
    qed
  qed
qed

lemma fold_print_game_failed: "failed_icons (fold print_game gs s) = failed_icons s"
  by (induction gs arbitrary: s) (simp_all add: print_game_def state_defs)

lemma fold_print_failure_failed: "failed_icons (fold print_failure fs s) = failed_icons s"
  by (induction fs arbitrary: s) (simp_all add: print_failure_def state_defs)

lemma get_steam_games_failed:
  "failed_icons (snd (get_steam_games env sp b s)) = failed_icons s"
  by (simp add: get_steam_games_def fold_print_game_failed state_defs split: sum.splits)

lemma logged_in_failed: "failed_icons (logged_in env sp s) = failed_icons s"
  by (simp add: logged_in_def Let_def state_defs)

lemma report_failed: "failed_icons (report noIcon s) = failed_icons s"
  by (simp add: report_def Let_def fold_print_failure_failed state_defs)

lemma report_last:
  "failed_icons s \<noteq> [] \<Longrightarrow>
     \<exists>tr. trace (report noIcon s) = tr @ [Print (retry_command (map appid (failed_icons s)))]"
  by (simp add: report_def Let_def state_defs)

text \<open>What the dispatch of \<^verbatim>\<open>main\<close> appends, by mode.\<close>

lemma dispatch_failed:
  assumes "dispatch env sp ids s = (Ok s3, noIcon)"
  shows "\<exists>dl. failed_icons s3 = failed_icons s @ dl
      \<and> (if ids = [''all'']
          then \<exists>all_games s1. get_steam_games env sp True s = (Inr all_games, s1)
                 \<and> subseq (map appid dl) (map appid all_games)
          else subseq (map appid dl) (filter (\<lambda>a. a \<noteq> ''228980'') ids))"
proof -
  consider (list) "ids = [''list'']" | (all) "ids = [''all'']"
    | (given) "ids \<noteq> [''list'']" "ids \<noteq> [''all'']" by blast
  then show ?thesis
  proof cases
    case list
    obtain r s1 where g: "get_steam_games env sp True s = (r, s1)"
      by (cases "get_steam_games env sp True s")
    with get_steam_games_failed [of env sp True s] have "failed_icons s1 = failed_icons s" by simp
    with assms list g have "failed_icons s3 = failed_icons s @ []"
      by (auto simp: dispatch_def state_defs split: sum.splits)
    with list show ?thesis by auto
  next
    case all
    obtain r s1 where g: "get_steam_games env sp True s = (r, s1)"
      by (cases "get_steam_games env sp True s")
    with get_steam_games_failed [of env sp True s] have f1: "failed_icons s1 = failed_icons s" by simp
    from assms all g obtain all_games where r: "r = Inr all_games"
      and fa: "fetch_all env sp all_games (py_print (total_line all_games) s1) = Ok s3"
      by (auto simp: dispatch_def split: sum.splits)
    from fetch_all_failed [of env sp all_games "py_print (total_line all_games) s1"] fa f1
    obtain dl where "failed_icons s3 = failed_icons s @ dl"
      and "subseq (map appid dl) (map appid all_games)"
      by (auto simp: state_defs)
    with all g r show ?thesis by auto
  next
    case given
    obtain r s1 where g: "get_steam_games env sp False s = (r, s1)"
      by (cases "get_steam_games env sp False s")
    with get_steam_games_failed [of env sp False s] have f1: "failed_icons s1 = failed_icons s" by simp
    from assms given g obtain games where r: "r = Inr games"
      and fg: "fetch_given env sp games ids s1 = Ok s3"
      by (auto simp: dispatch_def split: sum.splits)
    from fetch_given_failed [of env sp games ids s1] fg f1
    obtain dl where "failed_icons s3 = failed_icons s @ dl"
      and "subseq (map appid dl) (filter (\<lambda>a. a \<noteq> ''228980'') ids)"
      by auto
    with given show ?thesis by auto
  qed
qed

text \<open>
  C4. When a run reaches its end with a failure list that is not empty, the last thing
  printed (just before the logout) is the command line \<open>python .\SteamIconsFix.py\<close>
  followed by the identifiers of the failure records, in the order of the list and
  joined by spaces. These identifiers follow the order in which the identifiers were
  processed: they are a subsequence of the installed titles (argument \<open>all\<close>) or of the
  given identifiers without 228980. When no identifier has a space in it, splitting the
  arguments of the command line at the spaces gives back the identifiers of the failure
  list, each of them and in this order.
\<close>

theorem retry_command_lists_failures:
  assumes "main env argv disk = Ok s" and "failed_icons s \<noteq> []"
  shows "(\<exists>tr. trace s = tr @ [Print (''python .'' @ [backslash] @ ''SteamIconsFix.py ''
                                   @ join '' '' (map appid (failed_icons s))), Logout])
     \<and> (\<exists>steam_path. find_steam_installation env = Some steam_path
          \<and> (if drop 1 argv = [''all'']
              then \<exists>all_games s1.
                     get_steam_games env steam_path True
                       (logged_in env steam_path (initial_state\<lparr>files := disk\<rparr>))
                     = (Inr all_games, s1)
                     \<and> subseq (map appid (failed_icons s)) (map appid all_games)
              else subseq (map appid (failed_icons s))
                     (filter (\<lambda>a. a \<noteq> ''228980'') (drop 1 argv))))
     \<and> ((\<forall>f \<in> set (failed_icons s). CHR '' '' \<notin> set (appid f)) \<longrightarrow>
          split_on (CHR '' '') (join '' '' (map appid (failed_icons s)))
            = map appid (failed_icons s))"
proof -
  let ?s0 = "initial_state\<lparr>files := disk\<rparr>"
  have e0: "failed_icons ?s0 = []" by (simp add: initial_state_def)
  from assms have long: "\<not> length argv < 2"
    by (auto simp: main_def Let_def state_defs initial_state_def)
  from assms long obtain sp where sp: "find_steam_installation env = Some sp" and ne: "sp \<noteq> []"
    by (auto simp: main_def Let_def state_defs initial_state_def split: option.splits if_splits)
  let ?s2 = "logged_in env sp ?s0"
  obtain r noIcon where d: "dispatch env sp (drop 1 argv) ?s2 = (r, noIcon)"
    by (cases "dispatch env sp (drop 1 argv) ?s2")
  from assms(1) long sp ne d obtain s3 where r: "r = Ok s3"
    and s: "s = emit Logout (report noIcon s3)"
    by (cases r) (auto simp: main_def Let_def)
  from s have fs: "failed_icons s = failed_icons s3"
    by (simp add: emit_def report_failed)
  from dispatch_failed [of env sp "drop 1 argv" ?s2 s3 noIcon] d r
  obtain dl where dl: "failed_icons s3 = failed_icons ?s2 @ dl"
    and ord: "if drop 1 argv = [''all'']
          then \<exists>all_games s1. get_steam_games env sp True ?s2 = (Inr all_games, s1)
                 \<and> subseq (map appid dl) (map appid all_games)
          else subseq (map appid dl) (filter (\<lambda>a. a \<noteq> ''228980'') (drop 1 argv))"
    by blast
  from dl e0 have "failed_icons s3 = dl" by (simp add: logged_in_failed)
  with fs have fd: "failed_icons s = dl" by simp
  from assms(2) fs have "failed_icons s3 \<noteq> []" by simp
  then obtain tr where "trace (report noIcon s3)
      = tr @ [Print (retry_command (map appid (failed_icons s3)))]"
    using report_last by blast
  with s fs have "trace s = tr @ [Print (retry_command (map appid (failed_icons s))), Logout]"
    by (simp add: emit_def)
  then have first: "\<exists>tr. trace s = tr @ [Print (''python .'' @ [backslash] @ ''SteamIconsFix.py ''
                                   @ join '' '' (map appid (failed_icons s))), Logout]"
    by (auto simp: retry_command_def)
  have split_back: "(\<forall>f \<in> set (failed_icons s). CHR '' '' \<notin> set (appid f)) \<longrightarrow>
      split_on (CHR '' '') (join '' '' (map appid (failed_icons s))) = map appid (failed_icons s)"
    using assms(2) split_on_join [of "map appid (failed_icons s)" "CHR '' ''"] by simp
  from sp ord fd have second: "\<exists>steam_path. find_steam_installation env = Some steam_path
          \<and> (if drop 1 argv = [''all'']
              then \<exists>all_games s1.
                     get_steam_games env steam_path True
                       (logged_in env steam_path (initial_state\<lparr>files := disk\<rparr>))
                     = (Inr all_games, s1)
                     \<and> subseq (map appid (failed_icons s)) (map appid all_games)
              else subseq (map appid (failed_icons s))
                     (filter (\<lambda>a. a \<noteq> ''228980'') (drop 1 argv)))"
    by auto
  from first second split_back show ?thesis by (intro conjI)
qed

theorem retry_command_lists_failures_witness:
  "is_Ok (main offline_world [''SteamIconsFix.py'', ''730'', ''228980'', ''440''] Map.empty)
   \<and> failed_icons (state_of
        (main offline_world [''SteamIconsFix.py'', ''730'', ''228980'', ''440''] Map.empty))
      = [\<lparr>name = [], appid = ''730'', reason = ''icon_not_found''\<rparr>,
         \<lparr>name = [], appid = ''440'', reason = ''icon_not_found''\<rparr>]
   \<and> drop (length (trace (state_of
              (main offline_world [''SteamIconsFix.py'', ''730'', ''228980'', ''440'']
                 Map.empty))) - 2)
        (trace (state_of
           (main offline_world [''SteamIconsFix.py'', ''730'', ''228980'', ''440''] Map.empty)))
      = [Print (''python .'' @ [backslash] @ ''SteamIconsFix.py 730 440''), Logout]
   \<and> split_on (CHR '' '') ''730 440'' = [''730'', ''440'']"
proof -
  let ?r = "main offline_world [''SteamIconsFix.py'', ''730'', ''228980'', ''440''] Map.empty"
  have ok: "is_Ok ?r"
    and f: "failed_icons (state_of ?r)
              = [\<lparr>name = [], appid = ''730'', reason = ''icon_not_found''\<rparr>,
                 \<lparr>name = [], appid = ''440'', reason = ''icon_not_found''\<rparr>]"
    by (simp_all add: main_def dispatch_def get_steam_games_def logged_in_def report_def
        print_failure_def fetch_icon_by_app_id_def fallback_path_def fallback_try_def
        ensure_steamcmd_def offline_world_def state_defs initial_state_def Let_def
        steam_dir_nonempty)
  from ok have m: "?r = Ok (state_of ?r)" by (cases ?r) simp_all
  from f have ne: "failed_icons (state_of ?r) \<noteq> []" by simp
  note inst = retry_command_lists_failures [OF m ne]
  from inst f obtain tr where "trace (state_of ?r)
      = tr @ [Print (''python .'' @ [backslash] @ ''SteamIconsFix.py ''
                @ join '' '' [''730'', ''440'']), Logout]"
    by auto
  then have last2: "drop (length (trace (state_of ?r)) - 2) (trace (state_of ?r))
      = [Print (''python .'' @ [backslash] @ ''SteamIconsFix.py 730 440''), Logout]"
    by simp
  from inst f have "split_on (CHR '' '') (join '' '' [''730'', ''440'']) = [''730'', ''440'']"
    by simp
  then have split_back: "split_on (CHR '' '') ''730 440'' = [''730'', ''440'']" by simp
  from ok f last2 split_back show ?thesis by (intro conjI)
qed

subsection \<open>The redistributables\<close>

text \<open>
  C6. With the argument \<open>all\<close>, every installed title is acquired, the redistributables
  too: their identifier is passed to the engine, gets a failure record and is named in
  the command line for the retry.
\<close>

theorem all_mode_processes_redistributables:
  "is_Ok (main redistributables_world [''SteamIconsFix.py'', ''all''] Map.empty)
   \<and> failed_icons (state_of (main redistributables_world [''SteamIconsFix.py'', ''all''] Map.empty))
     = [\<lparr>name = ''Steamworks Common Redistributables'', appid = ''228980'',
         reason = ''icon_not_found''\<rparr>]
   \<and> runs_of (trace (state_of
        (main redistributables_world [''SteamIconsFix.py'', ''all''] Map.empty)))
     = [steamcmd_command (steam_dir @ [backslash] @ ''steamcmd.exe'') ''228980'']
   \<and> Print (retry_command [''228980'']) \<in> set (trace (state_of
        (main redistributables_world [''SteamIconsFix.py'', ''all''] Map.empty)))"
  by (simp add: main_def dispatch_def get_steam_games_def logged_in_def report_def
      print_game_def print_failure_def total_line_def
      fetch_icon_by_app_id_def fallback_path_def fallback_try_def ensure_steamcmd_def
      steamcmd_exe_path_def win_join_def redistributables_world_def redistributables_def
      offline_world_def state_defs initial_state_def Let_def steam_dir_nonempty)

text \<open>
  The loop over the identifiers given as arguments does skip it: no record it appends is
  for 228980.
\<close>

lemma given_mode_skips_redistributables:
  "''228980'' \<notin> appid ` set (new_failures s (fetch_given env sp games ids s))"
proof -
  obtain dl where dl: "failed_icons (state_of (fetch_given env sp games ids s)) = failed_icons s @ dl"
    and sub: "subseq (map appid dl) (filter (\<lambda>a. a \<noteq> ''228980'') ids)"
    using fetch_given_failed [of env sp games ids s] by (elim exE conjE)
  from dl have nf: "new_failures s (fetch_given env sp games ids s) = dl"
    by (rule new_failures_append)
  have "a \<noteq> ''228980''" if "a \<in> set (map appid dl)" for a
  proof -
    from sub that obtain y where "y \<in> set (filter (\<lambda>a. a \<noteq> ''228980'') ids)" and "a = y"
      by (rule list_emb_set)
    then show ?thesis by simp
  qed
  then show ?thesis unfolding nf by auto
qed

end
